theory Spec2Isabelle
  imports Main "HOL-Library.Sublist"
begin

section \<open>Go strings as byte sequences\<close>

text \<open>
  A Go \<^verbatim>\<open>string\<close> is a sequence of bytes, here a \<^typ>\<open>string\<close> (a list of 8-bit
  characters). The functions of package \<^verbatim>\<open>strings\<close> that the probes call are written
  out on bytes, under their Go names.
\<close>

definition HasPrefix :: "string \<Rightarrow> string \<Rightarrow> bool" where
  \<comment> \<open>\<^verbatim>\<open>len(s) >= len(prefix) && s[:len(prefix)] == prefix\<close>\<close>
  "HasPrefix s pre = (length pre \<le> length s \<and> take (length pre) s = pre)"

definition HasSuffix :: "string \<Rightarrow> string \<Rightarrow> bool" where
  "HasSuffix s suf = (length suf \<le> length s \<and> drop (length s - length suf) s = suf)"

definition TrimPrefix :: "string \<Rightarrow> string \<Rightarrow> string" where
  "TrimPrefix s pre = (if HasPrefix s pre then drop (length pre) s else s)"

fun Contains :: "string \<Rightarrow> string \<Rightarrow> bool" where
  "Contains [] substr = (substr = [])"
| "Contains (c # s) substr = (HasPrefix (c # s) substr \<or> Contains s substr)"

definition TrimRight :: "string \<Rightarrow> string \<Rightarrow> string" where
  \<comment> \<open>for a cutset of ASCII bytes, as in \<^verbatim>\<open>strings.TrimRight(s, "\x00\n")\<close>\<close>
  "TrimRight s cutset = rev (dropWhile (\<lambda>c. c \<in> set cutset) (rev s))"

subsection \<open>White space\<close>

text \<open>
  \<^verbatim>\<open>strings.TrimSpace\<close> and \<^verbatim>\<open>strings.Fields\<close> cut at the code points of
  \<^verbatim>\<open>unicode.IsSpace\<close>: tab, line feed, vertical tab, form feed, carriage return, space,
  U+0085, U+00A0, U+1680, U+2000 to U+200A, U+2028, U+2029, U+202F, U+205F and U+3000.
  On bytes these are the UTF-8 encodings below. No encoding is a prefix or a suffix of
  another, none begins with a continuation byte, and Go decodes a malformed sequence as
  one byte that is not a space, so looking for these byte sequences at each position
  is what the rune-wise library code does.
\<close>

definition space_runes :: "string list" where
  "space_runes =
     [[CHR 0x09], [CHR 0x0A], [CHR 0x0B], [CHR 0x0C], [CHR 0x0D], [CHR 0x20],
      [CHR 0xC2, CHR 0x85], [CHR 0xC2, CHR 0xA0],
      [CHR 0xE1, CHR 0x9A, CHR 0x80],
      [CHR 0xE2, CHR 0x80, CHR 0x80], [CHR 0xE2, CHR 0x80, CHR 0x81],
      [CHR 0xE2, CHR 0x80, CHR 0x82], [CHR 0xE2, CHR 0x80, CHR 0x83],
      [CHR 0xE2, CHR 0x80, CHR 0x84], [CHR 0xE2, CHR 0x80, CHR 0x85],
      [CHR 0xE2, CHR 0x80, CHR 0x86], [CHR 0xE2, CHR 0x80, CHR 0x87],
      [CHR 0xE2, CHR 0x80, CHR 0x88], [CHR 0xE2, CHR 0x80, CHR 0x89],
      [CHR 0xE2, CHR 0x80, CHR 0x8A],
      [CHR 0xE2, CHR 0x80, CHR 0xA8], [CHR 0xE2, CHR 0x80, CHR 0xA9],
      [CHR 0xE2, CHR 0x80, CHR 0xAF],
      [CHR 0xE2, CHR 0x81, CHR 0x9F],
      [CHR 0xE3, CHR 0x80, CHR 0x80]]"

definition leading_space :: "string \<Rightarrow> nat" where
  \<comment> \<open>the width of the space at the head of \<open>s\<close>, 0 when \<open>s\<close> does not begin with one\<close>
  "leading_space s = (case filter (HasPrefix s) space_runes of [] \<Rightarrow> 0 | r # _ \<Rightarrow> length r)"

definition trailing_space :: "string \<Rightarrow> nat" where
  "trailing_space s = (case filter (HasSuffix s) space_runes of [] \<Rightarrow> 0 | r # _ \<Rightarrow> length r)"

function TrimLeft_IsSpace :: "string \<Rightarrow> string" where
  "TrimLeft_IsSpace s =
     (if 0 < leading_space s then TrimLeft_IsSpace (drop (leading_space s) s) else s)"
  by pat_completeness auto
termination
proof (relation "measure length")
  fix s :: string
  assume pos: "0 < leading_space s"
  have "leading_space [] = 0"
    by (simp add: leading_space_def space_runes_def HasPrefix_def)
  with pos have "s \<noteq> []" by auto
  with pos show "(drop (leading_space s) s, s) \<in> measure length"
    by simp
qed simp

declare TrimLeft_IsSpace.simps [simp del]

function TrimRight_IsSpace :: "string \<Rightarrow> string" where
  "TrimRight_IsSpace s =
     (if 0 < trailing_space s then TrimRight_IsSpace (take (length s - trailing_space s) s)
      else s)"
  by pat_completeness auto
termination
proof (relation "measure length")
  fix s :: string
  assume pos: "0 < trailing_space s"
  have "trailing_space [] = 0"
    by (simp add: trailing_space_def space_runes_def HasSuffix_def)
  with pos have "s \<noteq> []" by auto
  with pos show "(take (length s - trailing_space s) s, s) \<in> measure length"
    by simp
qed simp

declare TrimRight_IsSpace.simps [simp del]

definition TrimSpace :: "string \<Rightarrow> string" where
  "TrimSpace s = TrimRight_IsSpace (TrimLeft_IsSpace s)"

text \<open>
  \<^verbatim>\<open>strings.Fields\<close>: the maximal runs of non-space bytes, in order. The first
  argument of the loop is the field being collected.
\<close>

function Fields_from :: "string \<Rightarrow> string \<Rightarrow> string list" where
  "Fields_from cur s =
     (if s = [] then (if cur = [] then [] else [cur])
      else if 0 < leading_space s
        then (if cur = [] then [] else [cur]) @ Fields_from [] (drop (leading_space s) s)
      else Fields_from (cur @ [hd s]) (tl s))"
  by pat_completeness auto
termination
proof (relation "measure (\<lambda>(cur, s). length s)")
  fix cur s :: string
  assume "s \<noteq> []" and "0 < leading_space s"
  then show "(([], drop (leading_space s) s), (cur, s)) \<in> measure (\<lambda>(cur, s). length s)"
    by simp
next
  fix cur s :: string
  assume "s \<noteq> []"
  then show "((cur @ [hd s], tl s), (cur, s)) \<in> measure (\<lambda>(cur, s). length s)"
    by simp
qed simp

declare Fields_from.simps [simp del]

definition Fields :: "string \<Rightarrow> string list" where
  "Fields s = Fields_from [] s"

section \<open>Line scanning\<close>

text \<open>
  \<^verbatim>\<open>bufio.NewScanner(r)\<close> with the default split function \<^verbatim>\<open>bufio.ScanLines\<close>: each
  call of \<^verbatim>\<open>Scan\<close> yields the next line, without its line feed and without one
  trailing carriage return; a last line that has no line feed is yielded too, an empty
  rest is not. The scanner's buffer grows to \<^verbatim>\<open>bufio.MaxScanTokenSize = 64 * 1024\<close>
  bytes and no further: when that many bytes are buffered and none is a line feed,
  \<^verbatim>\<open>Scan\<close> returns false (the error \<^verbatim>\<open>bufio.ErrTooLong\<close> is kept in the scanner)
  and scanning is over. A loop \<^verbatim>\<open>for scanner.Scan() { ... }\<close> that never consults
  \<^verbatim>\<open>scanner.Err()\<close> sees that as the end of the input. A read error of the underlying
  reader ends the input in the same way, after the bytes delivered before it.

  The limit is modelled as \<^verbatim>\<open>strings.Reader\<close> and \<^verbatim>\<open>os.File\<close> meet it, which report the
  end of file by a read of their own. One input is outside that: a last line of exactly
  \<^verbatim>\<open>MaxScanTokenSize\<close> bytes with no line feed, from a reader that reports the end
  together with its last bytes, is yielded by the library and not by the model. No
  statement below is about such an input.
\<close>

definition MaxScanTokenSize :: nat where
  "MaxScanTokenSize = 64 * 1024"

definition dropCR :: "string \<Rightarrow> string" where
  "dropCR data = (if data \<noteq> [] \<and> last data = CHR 0x0D then butlast data else data)"

function ScanLines :: "string \<Rightarrow> string list" where
  "ScanLines data =
     (if data = [] then []
      else if MaxScanTokenSize \<le> length (takeWhile (\<lambda>c. c \<noteq> CHR 0x0A) data) then []
      else dropCR (takeWhile (\<lambda>c. c \<noteq> CHR 0x0A) data)
             # ScanLines (drop (Suc (length (takeWhile (\<lambda>c. c \<noteq> CHR 0x0A) data))) data))"
  by pat_completeness auto
termination
  by (relation "measure length") auto

declare ScanLines.simps [simp del]

section \<open>The files the probes read\<close>

text \<open>
  The probes only read. What they can observe of the system is the result of each
  library call: an error, or the content. A file opened with \<^verbatim>\<open>os.Open\<close> is a reader:
  the bytes it delivers, followed by end of file (\<open>None\<close>) or by a read error.
  \<^verbatim>\<open>gzip.NewReader\<close> fails when the gzip header does not parse, and is otherwise a
  reader of the decompressed bytes. Closing a file has no effect that a probe observes.
\<close>

datatype error = Errno string

type_synonym reader = "string \<times> error option"

record world =
  os_Readlink :: "string \<Rightarrow> error + string"
  ioutil_ReadFile :: "string \<Rightarrow> error + string"
  os_Open :: "string \<Rightarrow> error + reader"
  gzip_NewReader :: "reader \<Rightarrow> error + reader"

text \<open>
  What a probe does is the sequence of its library calls on files and of its output
  calls, in program order. An output call is kept as the call itself: the format string
  and its arguments.
\<close>

datatype arg = Str string | Err error

datatype event =
    Readlink string
  | ReadFile string
  | Open string
  | Log_Println string
  | Log_Printf string "arg list"
  | Fmt_Printf string "arg list"

fun is_finding :: "event \<Rightarrow> bool" where
  "is_finding (Log_Println _) = True"
| "is_finding (Log_Printf _ _) = True"
| "is_finding (Fmt_Printf _ _) = True"
| "is_finding _ = False"

definition findings :: "event list \<Rightarrow> event list" where
  "findings evs = filter is_finding evs"

definition Scanner_lines :: "reader \<Rightarrow> string list" where
  \<comment> \<open>the lines \<^verbatim>\<open>for scanner.Scan()\<close> goes through; the reader's error is never looked at\<close>
  "Scanner_lines r = ScanLines (fst r)"

section \<open>Config line matcher\<close>

definition matchConfigLine :: "string \<Rightarrow> string \<Rightarrow> string \<times> bool" where
  "matchConfigLine line key =
     (if HasPrefix line (key @ ''='') then (TrimPrefix line (key @ ''=''), True)
      else if line = ''# '' @ key @ '' is not set'' then (''n'', True)
      else ('''', False))"

section \<open>Kernel config resolver\<close>

text \<open>The loop over the scanner's lines, in both branches of the resolver.\<close>

fun scan_config :: "string list \<Rightarrow> string \<Rightarrow> string \<times> bool" where
  "scan_config [] key = ('''', False)"
| "scan_config (line # rest) key =
     (case matchConfigLine line key of
        (val, True) \<Rightarrow> (val, True)
      | (_, False) \<Rightarrow> scan_config rest key)"

text \<open>The part of \<^verbatim>\<open>readKernelConfigOption\<close> after the first \<^verbatim>\<open>if\<close>: \<^verbatim>\<open>/boot/config-<uname -r>\<close>.\<close>

definition readBootConfig :: "world \<Rightarrow> string \<Rightarrow> event list \<times> (string \<times> bool)" where
  "readBootConfig w key =
     (case ioutil_ReadFile w ''/proc/sys/kernel/osrelease'' of
        Inl err \<Rightarrow> ([ReadFile ''/proc/sys/kernel/osrelease''], ('''', False))
      | Inr uname \<Rightarrow>
          (let configPath = ''/boot/config-'' @ TrimSpace uname in
           case os_Open w configPath of
             Inl err \<Rightarrow> ([ReadFile ''/proc/sys/kernel/osrelease'', Open configPath], ('''', False))
           | Inr f2 \<Rightarrow>
               ([ReadFile ''/proc/sys/kernel/osrelease'', Open configPath],
                scan_config (Scanner_lines f2) key)))"

definition readKernelConfigOption :: "world \<Rightarrow> string \<Rightarrow> event list \<times> (string \<times> bool)" where
  "readKernelConfigOption w key =
     (case os_Open w ''/proc/config.gz'' of
        Inr f \<Rightarrow>
          (case gzip_NewReader w f of
             Inr gz \<Rightarrow> ([Open ''/proc/config.gz''], scan_config (Scanner_lines gz) key)
           | Inl err \<Rightarrow>
               (let (evs, res) = readBootConfig w key in (Open ''/proc/config.gz'' # evs, res)))
      | Inl err \<Rightarrow>
          (let (evs, res) = readBootConfig w key in (Open ''/proc/config.gz'' # evs, res)))"

section \<open>Namespace isolation probe\<close>

definition namespaceTypes :: "string list" where
  "namespaceTypes = [''cgroup'', ''ipc'', ''mnt'', ''net'', ''pid'', ''uts'']"

definition namespace_step :: "world \<Rightarrow> string \<Rightarrow> event list" where
  \<comment> \<open>one round of the loop of \<^verbatim>\<open>CheckNamespaceIsolation\<close>\<close>
  "namespace_step w ns =
     [Readlink (''/proc/1/ns/'' @ ns), Readlink (''/proc/self/ns/'' @ ns)] @
     (case (os_Readlink w (''/proc/1/ns/'' @ ns), os_Readlink w (''/proc/self/ns/'' @ ns)) of
        (Inr initTarget, Inr selfTarget) \<Rightarrow>
          (if initTarget \<noteq> selfTarget
           then [Fmt_Printf ([CHR 0x09] @ ''%s: isolated (%s)'' @ [CHR 0x0A])
                   [Str ns, Str selfTarget]]
           else [Fmt_Printf ([CHR 0x09] @ ''%s: NOT isolated (shared with host, %s)'' @ [CHR 0x0A])
                   [Str ns, Str selfTarget]])
      | _ \<Rightarrow> [Log_Printf ([CHR 0x09] @ ''%s: unable to read namespace links'') [Str ns]])"

fun namespace_loop :: "world \<Rightarrow> string list \<Rightarrow> event list" where
  "namespace_loop w [] = []"
| "namespace_loop w (ns # rest) = namespace_step w ns @ namespace_loop w rest"

definition CheckNamespaceIsolation :: "world \<Rightarrow> event list" where
  "CheckNamespaceIsolation w =
     Log_Println ''Namespace isolation status:'' # namespace_loop w namespaceTypes"

section \<open>Seccomp probes\<close>

text \<open>Indexing a slice out of range is a run-time panic.\<close>

datatype panic = IndexOutOfRange nat nat

definition index :: "'a list \<Rightarrow> nat \<Rightarrow> panic + 'a" where
  "index xs i = (if i < length xs then Inr (xs ! i) else Inl (IndexOutOfRange i (length xs)))"

fun seccomp_status_loop :: "string list \<Rightarrow> panic + event list" where
  "seccomp_status_loop [] =
     Inr [Log_Println
       ''Seccomp: field not found in /proc/self/status (kernel may not support Seccomp)'']"
| "seccomp_status_loop (line # rest) =
     (if HasPrefix line ''Seccomp:'' then
        (let parts = Fields line in
         if length parts < 2 then Inr [Log_Println ''seccomp: malformed Seccomp line'']
         else
           (case index parts 1 of
              Inl p \<Rightarrow> Inl p
            | Inr mode \<Rightarrow>
                Inr [if mode = ''0'' then Log_Println ''Seccomp: disabled''
                     else if mode = ''1'' then Log_Println ''Seccomp: strict mode (1)''
                     else if mode = ''2'' then Log_Println ''Seccomp: filter mode (2)''
                     else Log_Printf ''Seccomp: unknown value %s'' [Str mode]]))
      else seccomp_status_loop rest)"

definition CheckSeccompStatus :: "world \<Rightarrow> panic + event list" where
  "CheckSeccompStatus w =
     (case ioutil_ReadFile w ''/proc/self/status'' of
        Inl err \<Rightarrow>
          Inr [ReadFile ''/proc/self/status'',
               Log_Printf ''seccomp: unable to read /proc/self/status: %v'' [Err err]]
      | Inr data \<Rightarrow>
          (case seccomp_status_loop (Scanner_lines (data, None)) of
             Inl p \<Rightarrow> Inl p
           | Inr evs \<Rightarrow> Inr (ReadFile ''/proc/self/status'' # evs)))"

definition CheckSeccompKernelSupport :: "world \<Rightarrow> event list" where
  "CheckSeccompKernelSupport w =
     (case ioutil_ReadFile w ''/proc/self/status'' of
        Inl err \<Rightarrow>
          [ReadFile ''/proc/self/status'',
           Log_Printf ''seccomp: unable to read /proc/self/status: %v'' [Err err]]
      | Inr data \<Rightarrow>
          [ReadFile ''/proc/self/status'',
           if Contains data ''Seccomp:''
           then Log_Println ''Seccomp: kernel supports Seccomp''
           else Log_Println ''Seccomp: kernel does NOT support Seccomp''] @
          (case readKernelConfigOption w ''CONFIG_SECCOMP'' of
             (evs, (val, ok)) \<Rightarrow>
               evs @ (if ok then [Log_Printf ''Seccomp: kernel config CONFIG_SECCOMP=%s'' [Str val]]
                      else [])))"

section \<open>SELinux probe\<close>

definition CheckSELinux :: "world \<Rightarrow> event list" where
  "CheckSELinux w =
     (case ioutil_ReadFile w ''/sys/fs/selinux/enforce'' of
        Inl err \<Rightarrow>
          [ReadFile ''/sys/fs/selinux/enforce'', Log_Println ''SELinux: not detected (no selinuxfs)'']
      | Inr data \<Rightarrow>
          [ReadFile ''/sys/fs/selinux/enforce'',
           if TrimSpace data = ''1'' then Log_Println ''SELinux: enforcing''
           else if TrimSpace data = ''0''
             then Log_Println ''SELinux: permissive (loaded but not enforcing)''
           else Log_Printf ''SELinux: unexpected enforce value %q'' [Str (TrimSpace data)]] @
          [ReadFile ''/proc/self/attr/current''] @
          (case ioutil_ReadFile w ''/proc/self/attr/current'' of
             Inr label \<Rightarrow>
               [Log_Printf ''SELinux: container label: %s''
                  [Str (TrimRight label [CHR 0x00, CHR 0x0A])]]
           | Inl err \<Rightarrow> []))"

section \<open>AppArmor probe\<close>

definition apparmor_kernel_config :: "world \<Rightarrow> event list" where
  \<comment> \<open>1. Kernel compile option.\<close>
  "apparmor_kernel_config w =
     (case readKernelConfigOption w ''CONFIG_SECURITY_APPARMOR'' of
        (evs, (val, ok)) \<Rightarrow>
          evs @ [if ok
                 then Log_Printf ''AppArmor: kernel config CONFIG_SECURITY_APPARMOR=%s'' [Str val]
                 else Log_Println ''AppArmor: kernel config not available''])"

definition apparmor_boot_parameters :: "world \<Rightarrow> event list" where
  \<comment> \<open>2. Boot parameters.\<close>
  "apparmor_boot_parameters w =
     ReadFile ''/proc/cmdline'' #
     (case ioutil_ReadFile w ''/proc/cmdline'' of
        Inr params \<Rightarrow>
          [if Contains params ''apparmor=1'' \<or> Contains params ''security=apparmor''
           then Log_Printf ''AppArmor: enabled via boot parameters (%s)'' [Str (TrimSpace params)]
           else if Contains params ''apparmor=0''
             then Log_Println ''AppArmor: disabled via boot parameter apparmor=0''
           else Log_Println ''AppArmor: no explicit AppArmor boot parameter found'']
      | Inl err \<Rightarrow> [])"

definition apparmor_runtime_status :: "world \<Rightarrow> event list" where
  \<comment> \<open>3. Runtime status.\<close>
  "apparmor_runtime_status w =
     ReadFile ''/sys/module/apparmor/parameters/enabled'' #
     (case ioutil_ReadFile w ''/sys/module/apparmor/parameters/enabled'' of
        Inr data \<Rightarrow>
          [if TrimSpace data = ''Y'' then Log_Println ''AppArmor: module is enabled (runtime)''
           else Log_Println ''AppArmor: module is loaded but disabled (runtime)'']
      | Inl err \<Rightarrow> [Log_Println ''AppArmor: module not loaded''])"

definition apparmor_profile :: "world \<Rightarrow> event list" where
  \<comment> \<open>4. Container AppArmor profile.\<close>
  "apparmor_profile w =
     ReadFile ''/proc/self/attr/current'' #
     (case ioutil_ReadFile w ''/proc/self/attr/current'' of
        Inr label \<Rightarrow>
          (let trimmed = TrimRight label [CHR 0x00, CHR 0x0A] in
           [if trimmed = '''' \<or> trimmed = ''unconfined''
            then Log_Println ''AppArmor: container is unconfined (no profile attached)''
            else Log_Printf ''AppArmor: container profile: %s'' [Str trimmed]])
      | Inl err \<Rightarrow> [Log_Println ''AppArmor: unable to read container profile''])"

definition CheckAppArmor :: "world \<Rightarrow> event list" where
  "CheckAppArmor w =
     apparmor_kernel_config w @ apparmor_boot_parameters w
       @ apparmor_runtime_status w @ apparmor_profile w"

section \<open>The lines of a text\<close>

text \<open>
  The lines of a text, for stating what a file contains: the segments that end at a line
  feed or at the end of the text, each without one trailing carriage return, whatever
  their length. The scanner yields these lines up to the first one that it cannot buffer
  (lemma \<open>ScanLines_prefix_text_lines\<close> below).
\<close>

function text_lines :: "string \<Rightarrow> string list" where
  "text_lines data =
     (if data = [] then []
      else dropCR (takeWhile (\<lambda>c. c \<noteq> CHR 0x0A) data)
             # text_lines (drop (Suc (length (takeWhile (\<lambda>c. c \<noteq> CHR 0x0A) data))) data))"
  by pat_completeness auto
termination
  by (relation "measure length") auto

declare text_lines.simps [simp del]

section \<open>Concrete systems\<close>

text \<open>
  Systems on which the probes are run below. A path that is not in a table cannot be
  read.
\<close>

definition from_table :: "(string \<times> 'a) list \<Rightarrow> string \<Rightarrow> error + 'a" where
  "from_table tbl path =
     (case map_of tbl path of
        Some v \<Rightarrow> Inr v
      | None \<Rightarrow> Inl (Errno ''no such file or directory''))"

definition gzip_magic :: string where
  "gzip_magic = [CHR 0x1F, CHR 0x8B, CHR 0x08]"

definition container :: world where
  \<comment> \<open>a container with its own ipc, net and pid namespaces; every file is readable\<close>
  "container =
     \<lparr> os_Readlink = from_table
         [(''/proc/1/ns/cgroup'', ''cgroup:[4026531835]''),
          (''/proc/self/ns/cgroup'', ''cgroup:[4026531835]''),
          (''/proc/1/ns/ipc'', ''ipc:[4026531839]''),
          (''/proc/self/ns/ipc'', ''ipc:[4026532191]''),
          (''/proc/self/ns/mnt'', ''mnt:[4026532189]''),
          (''/proc/1/ns/net'', ''net:[4026531992]''),
          (''/proc/self/ns/net'', ''net:[4026532194]''),
          (''/proc/1/ns/pid'', ''pid:[4026531836]''),
          (''/proc/self/ns/pid'', ''pid:[4026532192]''),
          (''/proc/1/ns/uts'', ''uts:[4026531838]'')],
       ioutil_ReadFile = from_table
         [(''/proc/self/status'',
             ''Name:'' @ [CHR 0x09] @ ''cdk\<newline>Seccomp:'' @ [CHR 0x09] @ ''2\<newline>''),
          (''/sys/fs/selinux/enforce'', ''1\<newline>''),
          (''/proc/self/attr/current'', ''docker_t'' @ [CHR 0x00, CHR 0x0A]),
          (''/proc/cmdline'', ''BOOT_IMAGE=/vmlinuz ro quiet apparmor=1\<newline>''),
          (''/sys/module/apparmor/parameters/enabled'', ''Y\<newline>''),
          (''/proc/sys/kernel/osrelease'', ''5.10.0-8-amd64\<newline>'')],
       os_Open = from_table
         [(''/proc/config.gz'', (gzip_magic, None)),
          (''/boot/config-5.10.0-8-amd64'',
             (''CONFIG_SECCOMP=m\<newline>CONFIG_SECURITY_APPARMOR=y\<newline>CONFIG_AUDIT=y\<newline>'',
              None))],
       gzip_NewReader = (\<lambda>r.
          if HasPrefix (fst r) gzip_magic
          then Inr (''CONFIG_SECCOMP=y\<newline># CONFIG_SECURITY_APPARMOR is not set\<newline>'', None)
          else Inl (Errno ''gzip: invalid header'')) \<rparr>"

definition with_file :: "world \<Rightarrow> string \<Rightarrow> error + string \<Rightarrow> world" where
  \<comment> \<open>the same system, with another result for reading one file\<close>
  "with_file w path res = w\<lparr>ioutil_ReadFile := (ioutil_ReadFile w)(path := res)\<rparr>"

definition permission_denied :: "error + 'a" where
  "permission_denied = Inl (Errno ''permission denied'')"

definition bare :: world where
  \<comment> \<open>nothing can be read\<close>
  "bare =
     \<lparr> os_Readlink = from_table [], ioutil_ReadFile = from_table [],
       os_Open = from_table [],
       gzip_NewReader = (\<lambda>r. Inl (Errno ''gzip: invalid header'')) \<rparr>"


definition status_malformed :: string where
  "status_malformed = ''Name:'' @ [CHR 0x09] @ ''cdk\<newline>Seccomp:\<newline>''"

definition status_many_groups :: string where
  \<comment> \<open>a process with 16385 supplementary groups: the \<open>Groups:\<close> line has 81933 bytes\<close>
  "status_many_groups =
     (''Name:'' @ [CHR 0x09] @ ''cdk'') @ CHR 0x0A #
     (''Groups:'' @ [CHR 0x09] @ concat (replicate 16384 ''1000 '') @ ''1001 '') @ CHR 0x0A #
     (''Seccomp:'' @ [CHR 0x09] @ ''2'') @ [CHR 0x0A]"

definition config_long_line :: string where
  \<comment> \<open>a kernel config whose built-in command line has 65536 bytes\<close>
  "config_long_line =
     (''CONFIG_CMDLINE=\"'' @ replicate 65536 (CHR ''a'') @ ''\"'') @ CHR 0x0A #
     ''CONFIG_SECCOMP=y'' @ [CHR 0x0A]"

definition container_long_config :: world where
  \<comment> \<open>the container, on a kernel whose config has that long line\<close>
  "container_long_config = container\<lparr>gzip_NewReader := (\<lambda>r. Inr (config_long_line, None))\<rparr>"



definition status_long_malformed :: string where
  \<comment> \<open>the same long \<open>Groups:\<close> line, before a \<open>Seccomp:\<close> line that has no value\<close>
  "status_long_malformed =
     (''Name:'' @ [CHR 0x09] @ ''cdk'') @ CHR 0x0A #
     (''Groups:'' @ [CHR 0x09] @ concat (replicate 16384 ''1000 '') @ ''1001 '') @ CHR 0x0A #
     ''Seccomp:'' @ [CHR 0x0A]"

section \<open>Properties of line scanning\<close>

lemma ScanLines_Nil: "ScanLines [] = []"
  by (subst ScanLines.simps) simp

lemma ScanLines_Cons:
  "ScanLines (c # cs) =
     (if MaxScanTokenSize \<le> length (takeWhile (\<lambda>c. c \<noteq> CHR 0x0A) (c # cs)) then []
      else dropCR (takeWhile (\<lambda>c. c \<noteq> CHR 0x0A) (c # cs))
             # ScanLines
                 (drop (Suc (length (takeWhile (\<lambda>c. c \<noteq> CHR 0x0A) (c # cs)))) (c # cs)))"
  by (subst ScanLines.simps) simp

lemmas scan_eval =
  Scanner_lines_def ScanLines_Nil ScanLines_Cons MaxScanTokenSize_def dropCR_def

lemma takeWhile_line:
  "CHR 0x0A \<notin> set l \<Longrightarrow> takeWhile (\<lambda>c. c \<noteq> CHR 0x0A) (l @ CHR 0x0A # rest) = l"
  by (induction l) auto

lemma ScanLines_line:
  "CHR 0x0A \<notin> set l \<Longrightarrow> length l < MaxScanTokenSize
   \<Longrightarrow> ScanLines (l @ CHR 0x0A # rest) = dropCR l # ScanLines rest"
  by (subst ScanLines.simps) (simp add: takeWhile_line)

lemma ScanLines_too_long:
  "CHR 0x0A \<notin> set l \<Longrightarrow> MaxScanTokenSize \<le> length l
   \<Longrightarrow> ScanLines (l @ CHR 0x0A # rest) = []"
  by (subst ScanLines.simps) (simp add: takeWhile_line)

lemma text_lines_line:
  "CHR 0x0A \<notin> set l \<Longrightarrow> text_lines (l @ CHR 0x0A # rest) = dropCR l # text_lines rest"
  by (subst text_lines.simps) (simp add: takeWhile_line)

lemma ScanLines_prefix_text_lines: "prefix (ScanLines data) (text_lines data)"
proof (induction data rule: ScanLines.induct)
  case (1 data)
  show ?case
  proof (cases "data = [] \<or> MaxScanTokenSize \<le> length (takeWhile (\<lambda>c. c \<noteq> CHR 0x0A) data)")
    case True
    then have "ScanLines data = []" by (subst ScanLines.simps) auto
    then show ?thesis by simp
  next
    case False
    then have "ScanLines data = dropCR (takeWhile (\<lambda>c. c \<noteq> CHR 0x0A) data)
        # ScanLines (drop (Suc (length (takeWhile (\<lambda>c. c \<noteq> CHR 0x0A) data))) data)"
      by (subst ScanLines.simps) auto
    moreover from False have "text_lines data = dropCR (takeWhile (\<lambda>c. c \<noteq> CHR 0x0A) data)
        # text_lines (drop (Suc (length (takeWhile (\<lambda>c. c \<noteq> CHR 0x0A) data))) data)"
      by (subst text_lines.simps) auto
    moreover from False 1
    have "prefix (ScanLines (drop (Suc (length (takeWhile (\<lambda>c. c \<noteq> CHR 0x0A) data))) data))
            (text_lines (drop (Suc (length (takeWhile (\<lambda>c. c \<noteq> CHR 0x0A) data))) data))"
      by simp
    ultimately show ?thesis by simp
  qed
qed

section \<open>Properties of the config line matcher\<close>

lemma HasPrefix_prefix: "HasPrefix s p = prefix p s"
  unfolding HasPrefix_def
  by (metis prefix_length_le take_is_prefix append_eq_conv_conj prefix_def)

text \<open>
  If \<open>K\<close> followed by \<open>c\<close> is a prefix of \<open>p\<close> followed by \<open>K\<close>, then \<open>K\<close> repeats \<open>p\<close> and
  \<open>c\<close> is a byte of \<open>p\<close>.
\<close>

lemma prefix_shifted_last:
  "prefix (K @ [c]) (p @ K @ s) \<Longrightarrow> p \<noteq> [] \<Longrightarrow> c \<in> set p"
proof (induction "length K" arbitrary: K rule: less_induct)
  case less
  from less.prems(1) obtain zs where eq: "p @ K @ s = K @ c # zs"
    by (auto simp: prefix_def)
  show ?case
  proof (cases "length K < length p")
    case True
    then have "take (Suc (length K)) (p @ K @ s) = take (Suc (length K)) p" by simp
    moreover have "take (Suc (length K)) (K @ c # zs) = K @ [c]" by simp
    ultimately have "K @ [c] = take (Suc (length K)) p" using eq by simp
    then have "c \<in> set (take (Suc (length K)) p)"
      by (metis in_set_conv_decomp)
    then show ?thesis by (rule in_set_takeD)
  next
    case False
    then have "take (length p) (K @ c # zs) = take (length p) K" by simp
    moreover have "take (length p) (p @ K @ s) = p" by simp
    ultimately have "take (length p) K = p" using eq by simp
    then have K: "K = p @ drop (length p) K" by (metis append_take_drop_id)
    define K' where "K' = drop (length p) K"
    from K have K2: "K = p @ K'" by (simp add: K'_def)
    with less.prems(1) have "prefix (K' @ [c]) (p @ K' @ s)" by simp
    moreover from K2 less.prems(2) have "length K' < length K" by simp
    ultimately show ?thesis using less.hyps less.prems(2) by blast
  qed
qed

lemma not_set_line_no_assignment:
  "\<not> HasPrefix (''# '' @ K @ '' is not set'') (K @ ''='')"
proof
  assume "HasPrefix (''# '' @ K @ '' is not set'') (K @ ''='')"
  then have "prefix (K @ [CHR ''='']) (''# '' @ K @ '' is not set'')"
    by (simp add: HasPrefix_prefix)
  then have "CHR ''='' \<in> set ''# ''" by (rule prefix_shifted_last) simp
  then show False by simp
qed

text \<open>
  C2. For every key \<open>K\<close>, value \<open>V\<close> and line \<open>L\<close>: on the line \<open>K=V\<close> the matcher returns
  \<open>V\<close>, the whole rest of the line after \<open>K=\<close>, and true; on the line \<open># K is not set\<close>
  it returns \<open>n\<close> and true (the first rule never takes that line, whatever \<open>K\<close> is); on
  a line of neither shape it returns the empty string and false.
\<close>

theorem matchConfigLine_shapes:
  "matchConfigLine (K @ ''='' @ V) K = (V, True)
   \<and> matchConfigLine (''# '' @ K @ '' is not set'') K = (''n'', True)
   \<and> ((\<forall>V'. L \<noteq> K @ ''='' @ V') \<and> L \<noteq> ''# '' @ K @ '' is not set''
        \<longrightarrow> matchConfigLine L K = ('''', False))"
proof (intro conjI impI)
  show "matchConfigLine (K @ ''='' @ V) K = (V, True)"
    by (simp add: matchConfigLine_def TrimPrefix_def HasPrefix_def)
  show "matchConfigLine (''# '' @ K @ '' is not set'') K = (''n'', True)"
    using not_set_line_no_assignment [of K] by (simp add: matchConfigLine_def)
  assume h: "(\<forall>V'. L \<noteq> K @ ''='' @ V') \<and> L \<noteq> ''# '' @ K @ '' is not set''"
  have "\<not> HasPrefix L (K @ ''='')"
  proof
    assume "HasPrefix L (K @ ''='')"
    then have "prefix (K @ ''='') L" by (simp only: HasPrefix_prefix)
    then obtain V' where "L = (K @ ''='') @ V'" by (auto simp: prefix_def)
    with h show False by simp
  qed
  with h show "matchConfigLine L K = ('''', False)"
    by (simp add: matchConfigLine_def)
qed

theorem matchConfigLine_shapes_witness:
  "matchConfigLine (''CONFIG_SECCOMP'' @ ''='' @ ''y'') ''CONFIG_SECCOMP'' = (''y'', True)
   \<and> matchConfigLine (''# '' @ ''CONFIG_SECCOMP'' @ '' is not set'') ''CONFIG_SECCOMP''
       = (''n'', True)
   \<and> (\<forall>V'. ''CONFIG_SECCOMP_FILTER=y'' \<noteq> ''CONFIG_SECCOMP'' @ ''='' @ V')
   \<and> ''CONFIG_SECCOMP_FILTER=y'' \<noteq> ''# '' @ ''CONFIG_SECCOMP'' @ '' is not set''
   \<and> matchConfigLine ''CONFIG_SECCOMP_FILTER=y'' ''CONFIG_SECCOMP'' = ('''', False)"
  using matchConfigLine_shapes [of "''CONFIG_SECCOMP''" "''y''" "''CONFIG_SECCOMP_FILTER=y''"]
  by simp

section \<open>Properties of the Seccomp mode probe\<close>

lemma seccomp_status_loop_no_panic: "seccomp_status_loop ls \<noteq> Inl p"
  by (induction ls) (simp_all add: Let_def index_def)

lemma seccomp_status_loop_malformed:
  "find (\<lambda>l. HasPrefix l ''Seccomp:'') ls = Some line \<Longrightarrow> length (Fields line) < 2
   \<Longrightarrow> seccomp_status_loop ls = Inr [Log_Println ''seccomp: malformed Seccomp line'']"
  by (induction ls) (auto simp: Let_def split: if_splits)

text \<open>
  The guard of the indexing \<open>parts[1]\<close>. When the line that the loop stops at (the first
  line the scanner yields with the prefix \<open>Seccomp:\<close>) splits into fewer than two fields,
  the probe logs the malformed-line finding and nothing after it. The indexing is
  reached only past that test, so the probe panics on no input: its result is never an
  index out of range.
\<close>

lemma CheckSeccompStatus_scanned_malformed:
  "(\<forall>p. CheckSeccompStatus w \<noteq> Inl p)
   \<and> (ioutil_ReadFile w ''/proc/self/status'' = Inr data
        \<and> find (\<lambda>l. HasPrefix l ''Seccomp:'') (Scanner_lines (data, None)) = Some line
        \<and> length (Fields line) < 2
      \<longrightarrow> CheckSeccompStatus w
            = Inr [ReadFile ''/proc/self/status'',
                   Log_Println ''seccomp: malformed Seccomp line''])"
proof (intro conjI allI impI)
  fix p
  show "CheckSeccompStatus w \<noteq> Inl p"
    using seccomp_status_loop_no_panic
    by (auto simp: CheckSeccompStatus_def split: sum.splits)
next
  assume h: "ioutil_ReadFile w ''/proc/self/status'' = Inr data
        \<and> find (\<lambda>l. HasPrefix l ''Seccomp:'') (Scanner_lines (data, None)) = Some line
        \<and> length (Fields line) < 2"
  then have "seccomp_status_loop (Scanner_lines (data, None))
               = Inr [Log_Println ''seccomp: malformed Seccomp line'']"
    by (simp add: seccomp_status_loop_malformed)
  with h show "CheckSeccompStatus w
            = Inr [ReadFile ''/proc/self/status'',
                   Log_Println ''seccomp: malformed Seccomp line'']"
    by (simp add: CheckSeccompStatus_def)
qed

lemma CheckSeccompStatus_scanned_malformed_example:
  "ioutil_ReadFile (with_file container ''/proc/self/status'' (Inr status_malformed))
      ''/proc/self/status'' = Inr status_malformed
   \<and> find (\<lambda>l. HasPrefix l ''Seccomp:'') (Scanner_lines (status_malformed, None))
       = Some ''Seccomp:''
   \<and> length (Fields ''Seccomp:'') < 2
   \<and> CheckSeccompStatus (with_file container ''/proc/self/status'' (Inr status_malformed))
       = Inr [ReadFile ''/proc/self/status'', Log_Println ''seccomp: malformed Seccomp line'']"
proof -
  have a: "ioutil_ReadFile (with_file container ''/proc/self/status'' (Inr status_malformed))
      ''/proc/self/status'' = Inr status_malformed"
    by (simp add: with_file_def)
  have b: "find (\<lambda>l. HasPrefix l ''Seccomp:'') (Scanner_lines (status_malformed, None))
       = Some ''Seccomp:''"
    by (simp add: scan_eval status_malformed_def HasPrefix_def)
  have c: "length (Fields ''Seccomp:'') < 2"
    by code_simp
  from a b c CheckSeccompStatus_scanned_malformed
    [of "with_file container ''/proc/self/status'' (Inr status_malformed)"
        status_malformed "''Seccomp:''"]
  show ?thesis by blast
qed

section \<open>Properties of the namespace isolation probe\<close>

lemma findings_append: "findings (xs @ ys) = findings xs @ findings ys"
  by (simp add: findings_def)

lemma findings_namespace_step:
  "findings (namespace_step w ns) = [last (namespace_step w ns)]"
  by (auto simp: findings_def namespace_step_def split: sum.splits)

lemma findings_namespace_loop:
  "findings (namespace_loop w nss) = map (\<lambda>ns. last (namespace_step w ns)) nss"
  by (induction nss) (simp_all add: findings_append findings_namespace_step, simp add: findings_def)

text \<open>
  C7. The kinds are cgroup, ipc, mnt, net, pid, uts, in that order. After the heading
  line the probe emits one finding per kind, in that order, and the finding of a kind
  depends on the two links of that kind only: \<open>isolated\<close> with the probe's own namespace
  identity when both links are read and differ; \<open>NOT isolated (shared with host, ...)\<close>
  with the shared identity when both are read and are equal; \<open>unable to read namespace
  links\<close> when either link cannot be read, for that kind and no other.
\<close>

theorem CheckNamespaceIsolation_per_kind:
  "namespaceTypes = [''cgroup'', ''ipc'', ''mnt'', ''net'', ''pid'', ''uts'']
   \<and> length (findings (CheckNamespaceIsolation w)) = 7
   \<and> (i < 6 \<longrightarrow>
        (let ns = namespaceTypes ! i;
             f = findings (CheckNamespaceIsolation w) ! Suc i
         in (\<forall>a b. os_Readlink w (''/proc/1/ns/'' @ ns) = Inr a
                   \<and> os_Readlink w (''/proc/self/ns/'' @ ns) = Inr b \<and> a \<noteq> b
                 \<longrightarrow> f = Fmt_Printf ([CHR 0x09] @ ''%s: isolated (%s)'' @ [CHR 0x0A])
                           [Str ns, Str b])
          \<and> (\<forall>a. os_Readlink w (''/proc/1/ns/'' @ ns) = Inr a
                   \<and> os_Readlink w (''/proc/self/ns/'' @ ns) = Inr a
                 \<longrightarrow> f = Fmt_Printf
                           ([CHR 0x09] @ ''%s: NOT isolated (shared with host, %s)'' @ [CHR 0x0A])
                           [Str ns, Str a])
          \<and> ((\<exists>e. os_Readlink w (''/proc/1/ns/'' @ ns) = Inl e)
                \<or> (\<exists>e. os_Readlink w (''/proc/self/ns/'' @ ns) = Inl e)
                 \<longrightarrow> f = Log_Printf ([CHR 0x09] @ ''%s: unable to read namespace links'')
                           [Str ns])))"
proof (intro conjI impI)
  show "namespaceTypes = [''cgroup'', ''ipc'', ''mnt'', ''net'', ''pid'', ''uts'']"
    by (simp add: namespaceTypes_def)
  have fs: "findings (CheckNamespaceIsolation w)
              = Log_Println ''Namespace isolation status:''
                # map (\<lambda>ns. last (namespace_step w ns)) namespaceTypes"
    by (simp add: CheckNamespaceIsolation_def findings_namespace_loop [symmetric])
       (simp add: findings_def)
  have len: "length namespaceTypes = 6" by (simp add: namespaceTypes_def)
  from fs len show "length (findings (CheckNamespaceIsolation w)) = 7" by simp
  assume "i < 6"
  with fs len have f: "findings (CheckNamespaceIsolation w) ! Suc i
                         = last (namespace_step w (namespaceTypes ! i))"
    by simp
  show "let ns = namespaceTypes ! i;
             f = findings (CheckNamespaceIsolation w) ! Suc i
         in (\<forall>a b. os_Readlink w (''/proc/1/ns/'' @ ns) = Inr a
                   \<and> os_Readlink w (''/proc/self/ns/'' @ ns) = Inr b \<and> a \<noteq> b
                 \<longrightarrow> f = Fmt_Printf ([CHR 0x09] @ ''%s: isolated (%s)'' @ [CHR 0x0A])
                           [Str ns, Str b])
          \<and> (\<forall>a. os_Readlink w (''/proc/1/ns/'' @ ns) = Inr a
                   \<and> os_Readlink w (''/proc/self/ns/'' @ ns) = Inr a
                 \<longrightarrow> f = Fmt_Printf
                           ([CHR 0x09] @ ''%s: NOT isolated (shared with host, %s)'' @ [CHR 0x0A])
                           [Str ns, Str a])
          \<and> ((\<exists>e. os_Readlink w (''/proc/1/ns/'' @ ns) = Inl e)
                \<or> (\<exists>e. os_Readlink w (''/proc/self/ns/'' @ ns) = Inl e)
                 \<longrightarrow> f = Log_Printf ([CHR 0x09] @ ''%s: unable to read namespace links'')
                           [Str ns])"
    unfolding Let_def f
    by (auto simp: namespace_step_def split: sum.splits)
qed

lemma container_links:
  "os_Readlink container ''/proc/1/ns/cgroup'' = Inr ''cgroup:[4026531835]''"
  "os_Readlink container ''/proc/self/ns/cgroup'' = Inr ''cgroup:[4026531835]''"
  "os_Readlink container ''/proc/1/ns/ipc'' = Inr ''ipc:[4026531839]''"
  "os_Readlink container ''/proc/self/ns/ipc'' = Inr ''ipc:[4026532191]''"
  "os_Readlink container ''/proc/1/ns/mnt'' = Inl (Errno ''no such file or directory'')"
  by (simp_all add: container_def from_table_def)

theorem CheckNamespaceIsolation_per_kind_witness:
  "(0::nat) < 6 \<and> (1::nat) < 6 \<and> (2::nat) < 6
   \<and> os_Readlink container ''/proc/1/ns/cgroup'' = Inr ''cgroup:[4026531835]''
   \<and> os_Readlink container ''/proc/self/ns/cgroup'' = Inr ''cgroup:[4026531835]''
   \<and> findings (CheckNamespaceIsolation container) ! 1
       = Fmt_Printf ([CHR 0x09] @ ''%s: NOT isolated (shared with host, %s)'' @ [CHR 0x0A])
           [Str ''cgroup'', Str ''cgroup:[4026531835]'']
   \<and> os_Readlink container ''/proc/1/ns/ipc'' = Inr ''ipc:[4026531839]''
   \<and> os_Readlink container ''/proc/self/ns/ipc'' = Inr ''ipc:[4026532191]''
   \<and> ''ipc:[4026531839]'' \<noteq> ''ipc:[4026532191]''
   \<and> findings (CheckNamespaceIsolation container) ! 2
       = Fmt_Printf ([CHR 0x09] @ ''%s: isolated (%s)'' @ [CHR 0x0A])
           [Str ''ipc'', Str ''ipc:[4026532191]'']
   \<and> os_Readlink container ''/proc/1/ns/mnt'' = Inl (Errno ''no such file or directory'')
   \<and> findings (CheckNamespaceIsolation container) ! 3
       = Log_Printf ([CHR 0x09] @ ''%s: unable to read namespace links'') [Str ''mnt'']"
proof -
  note k = CheckNamespaceIsolation_per_kind
  have "findings (CheckNamespaceIsolation container) ! Suc 0
       = Fmt_Printf ([CHR 0x09] @ ''%s: NOT isolated (shared with host, %s)'' @ [CHR 0x0A])
           [Str ''cgroup'', Str ''cgroup:[4026531835]'']"
    using k [of container 0] container_links by (simp add: Let_def namespaceTypes_def)
  moreover have "findings (CheckNamespaceIsolation container) ! Suc (Suc 0)
       = Fmt_Printf ([CHR 0x09] @ ''%s: isolated (%s)'' @ [CHR 0x0A])
           [Str ''ipc'', Str ''ipc:[4026532191]'']"
    using k [of container "Suc 0"] container_links by (simp add: Let_def namespaceTypes_def)
  moreover have "findings (CheckNamespaceIsolation container) ! Suc (Suc (Suc 0))
       = Log_Printf ([CHR 0x09] @ ''%s: unable to read namespace links'') [Str ''mnt'']"
    using k [of container "Suc (Suc 0)"] container_links by (simp add: Let_def namespaceTypes_def)
  ultimately show ?thesis
    using container_links by (simp add: numeral_2_eq_2 numeral_3_eq_3)
qed

section \<open>Properties of the SELinux probe\<close>

lemma TrimRight_decompose:
  "\<exists>rest. s = TrimRight s cutset @ rest \<and> set rest \<subseteq> set cutset
          \<and> (TrimRight s cutset = [] \<or> last (TrimRight s cutset) \<notin> set cutset)"
proof -
  let ?P = "\<lambda>c. c \<in> set cutset"
  have "s = rev (takeWhile ?P (rev s) @ dropWhile ?P (rev s))" by simp
  also have "\<dots> = rev (dropWhile ?P (rev s)) @ rev (takeWhile ?P (rev s))"
    by (simp only: rev_append)
  finally have s: "s = TrimRight s cutset @ rev (takeWhile ?P (rev s))"
    by (simp only: TrimRight_def)
  have "set (rev (takeWhile ?P (rev s))) \<subseteq> set cutset"
    by (auto dest: set_takeWhileD)
  moreover have "TrimRight s cutset = [] \<or> last (TrimRight s cutset) \<notin> set cutset"
  proof (cases "dropWhile ?P (rev s)")
    case Nil
    then show ?thesis by (simp add: TrimRight_def)
  next
    case (Cons x xs)
    then have "\<not> ?P (hd (dropWhile ?P (rev s)))" by (metis hd_dropWhile list.distinct(1))
    with Cons show ?thesis by (simp add: TrimRight_def)
  qed
  ultimately show ?thesis using s by blast
qed

text \<open>
  C8. When \<^verbatim>\<open>/sys/fs/selinux/enforce\<close> cannot be read, the probe logs \<open>not detected\<close> and
  stops: it does not read \<^verbatim>\<open>/proc/self/attr/current\<close> and logs no label. When it can
  be read, the value with white space trimmed is classified (\<open>1\<close> enforcing, \<open>0\<close>
  permissive, anything else \<open>unexpected enforce value\<close> with the trimmed value as the
  argument); then, when \<^verbatim>\<open>/proc/self/attr/current\<close> can be read, its content without
  its trailing NUL and line feed bytes is logged as the label, and when it cannot be
  read nothing more is logged. The content \<open>docker_t\<close>, NUL, line feed gives the label
  \<open>docker_t\<close>.
\<close>

theorem CheckSELinux_cases:
  "(\<forall>e. ioutil_ReadFile w ''/sys/fs/selinux/enforce'' = Inl e \<longrightarrow>
        findings (CheckSELinux w) = [Log_Println ''SELinux: not detected (no selinuxfs)'']
        \<and> ReadFile ''/proc/self/attr/current'' \<notin> set (CheckSELinux w))
   \<and> (\<forall>data. ioutil_ReadFile w ''/sys/fs/selinux/enforce'' = Inr data \<longrightarrow>
        (let v = TrimSpace data;
             state = (if v = ''1'' then Log_Println ''SELinux: enforcing''
                      else if v = ''0''
                        then Log_Println ''SELinux: permissive (loaded but not enforcing)''
                      else Log_Printf ''SELinux: unexpected enforce value %q'' [Str v])
         in (\<forall>label. ioutil_ReadFile w ''/proc/self/attr/current'' = Inr label \<longrightarrow>
               findings (CheckSELinux w)
                 = [state, Log_Printf ''SELinux: container label: %s''
                             [Str (TrimRight label [CHR 0x00, CHR 0x0A])]]
               \<and> (\<exists>rest. label = TrimRight label [CHR 0x00, CHR 0x0A] @ rest
                      \<and> set rest \<subseteq> {CHR 0x00, CHR 0x0A}
                      \<and> (TrimRight label [CHR 0x00, CHR 0x0A] = []
                           \<or> last (TrimRight label [CHR 0x00, CHR 0x0A])
                               \<notin> {CHR 0x00, CHR 0x0A})))
          \<and> (\<forall>e. ioutil_ReadFile w ''/proc/self/attr/current'' = Inl e \<longrightarrow>
               findings (CheckSELinux w) = [state])))
   \<and> TrimRight (''docker_t'' @ [CHR 0x00, CHR 0x0A]) [CHR 0x00, CHR 0x0A] = ''docker_t''"
proof (intro conjI allI impI)
  fix e
  assume "ioutil_ReadFile w ''/sys/fs/selinux/enforce'' = Inl e"
  then have "CheckSELinux w = [ReadFile ''/sys/fs/selinux/enforce'',
                               Log_Println ''SELinux: not detected (no selinuxfs)'']"
    by (simp add: CheckSELinux_def)
  then show "findings (CheckSELinux w) = [Log_Println ''SELinux: not detected (no selinuxfs)'']"
    and "ReadFile ''/proc/self/attr/current'' \<notin> set (CheckSELinux w)"
    by (simp_all add: findings_def)
next
  fix data
  assume d: "ioutil_ReadFile w ''/sys/fs/selinux/enforce'' = Inr data"
  show "let v = TrimSpace data;
             state = (if v = ''1'' then Log_Println ''SELinux: enforcing''
                      else if v = ''0''
                        then Log_Println ''SELinux: permissive (loaded but not enforcing)''
                      else Log_Printf ''SELinux: unexpected enforce value %q'' [Str v])
         in (\<forall>label. ioutil_ReadFile w ''/proc/self/attr/current'' = Inr label \<longrightarrow>
               findings (CheckSELinux w)
                 = [state, Log_Printf ''SELinux: container label: %s''
                             [Str (TrimRight label [CHR 0x00, CHR 0x0A])]]
               \<and> (\<exists>rest. label = TrimRight label [CHR 0x00, CHR 0x0A] @ rest
                      \<and> set rest \<subseteq> {CHR 0x00, CHR 0x0A}
                      \<and> (TrimRight label [CHR 0x00, CHR 0x0A] = []
                           \<or> last (TrimRight label [CHR 0x00, CHR 0x0A])
                               \<notin> {CHR 0x00, CHR 0x0A})))
          \<and> (\<forall>e. ioutil_ReadFile w ''/proc/self/attr/current'' = Inl e \<longrightarrow>
               findings (CheckSELinux w) = [state])"
    unfolding Let_def
  proof (intro conjI allI impI)
    fix label
    assume l: "ioutil_ReadFile w ''/proc/self/attr/current'' = Inr label"
    from d l show "findings (CheckSELinux w)
        = [if TrimSpace data = ''1'' then Log_Println ''SELinux: enforcing''
           else if TrimSpace data = ''0''
             then Log_Println ''SELinux: permissive (loaded but not enforcing)''
           else Log_Printf ''SELinux: unexpected enforce value %q'' [Str (TrimSpace data)],
           Log_Printf ''SELinux: container label: %s''
             [Str (TrimRight label [CHR 0x00, CHR 0x0A])]]"
      by (simp add: CheckSELinux_def findings_def)
    from TrimRight_decompose [of label "[CHR 0x00, CHR 0x0A]"]
    show "\<exists>rest. label = TrimRight label [CHR 0x00, CHR 0x0A] @ rest
                      \<and> set rest \<subseteq> {CHR 0x00, CHR 0x0A}
                      \<and> (TrimRight label [CHR 0x00, CHR 0x0A] = []
                           \<or> last (TrimRight label [CHR 0x00, CHR 0x0A])
                               \<notin> {CHR 0x00, CHR 0x0A})"
      by simp
  next
    fix e
    assume l: "ioutil_ReadFile w ''/proc/self/attr/current'' = Inl e"
    from d l show "findings (CheckSELinux w)
        = [if TrimSpace data = ''1'' then Log_Println ''SELinux: enforcing''
           else if TrimSpace data = ''0''
             then Log_Println ''SELinux: permissive (loaded but not enforcing)''
           else Log_Printf ''SELinux: unexpected enforce value %q'' [Str (TrimSpace data)]]"
      by (simp add: CheckSELinux_def findings_def)
  qed
next
  show "TrimRight (''docker_t'' @ [CHR 0x00, CHR 0x0A]) [CHR 0x00, CHR 0x0A] = ''docker_t''"
    by (simp add: TrimRight_def)
qed

theorem CheckSELinux_cases_witness:
  "ioutil_ReadFile bare ''/sys/fs/selinux/enforce'' = Inl (Errno ''no such file or directory'')
   \<and> findings (CheckSELinux bare) = [Log_Println ''SELinux: not detected (no selinuxfs)'']
   \<and> ReadFile ''/proc/self/attr/current'' \<notin> set (CheckSELinux bare)
   \<and> ioutil_ReadFile container ''/sys/fs/selinux/enforce'' = Inr ''1\<newline>''
   \<and> ioutil_ReadFile container ''/proc/self/attr/current''
        = Inr (''docker_t'' @ [CHR 0x00, CHR 0x0A])
   \<and> findings (CheckSELinux container)
        = [Log_Println ''SELinux: enforcing'',
           Log_Printf ''SELinux: container label: %s'' [Str ''docker_t'']]
   \<and> ioutil_ReadFile (with_file container ''/proc/self/attr/current'' permission_denied)
          ''/proc/self/attr/current'' = Inl (Errno ''permission denied'')
   \<and> findings (CheckSELinux (with_file container ''/proc/self/attr/current'' permission_denied))
        = [Log_Println ''SELinux: enforcing'']"
proof -
  note t = CheckSELinux_cases
  let ?w = "with_file container ''/proc/self/attr/current'' permission_denied"
  have r1: "ioutil_ReadFile bare ''/sys/fs/selinux/enforce''
              = Inl (Errno ''no such file or directory'')"
    by (simp add: bare_def from_table_def)
  have r2: "ioutil_ReadFile container ''/sys/fs/selinux/enforce'' = Inr ''1\<newline>''"
    and r3: "ioutil_ReadFile container ''/proc/self/attr/current''
               = Inr (''docker_t'' @ [CHR 0x00, CHR 0x0A])"
    by (simp_all add: container_def from_table_def)
  have r4: "ioutil_ReadFile ?w ''/sys/fs/selinux/enforce'' = Inr ''1\<newline>''"
    and r5: "ioutil_ReadFile ?w ''/proc/self/attr/current'' = Inl (Errno ''permission denied'')"
    by (simp_all add: with_file_def permission_denied_def container_def from_table_def)
  have ts: "TrimSpace ''1\<newline>'' = ''1''" by code_simp
  from t [of bare] r1
  have A: "findings (CheckSELinux bare) = [Log_Println ''SELinux: not detected (no selinuxfs)'']
           \<and> ReadFile ''/proc/self/attr/current'' \<notin> set (CheckSELinux bare)"
    by blast
  from t [of container] r2 r3
  have B: "findings (CheckSELinux container)
        = [Log_Println ''SELinux: enforcing'',
           Log_Printf ''SELinux: container label: %s'' [Str ''docker_t'']]"
    by (simp add: Let_def ts)
  from t [of ?w] r4 r5
  have C: "findings (CheckSELinux ?w) = [Log_Println ''SELinux: enforcing'']"
    by (simp add: Let_def ts)
  from A B C r1 r2 r3 r5 show ?thesis by blast
qed

section \<open>Properties of the kernel config resolver\<close>


lemma scan_config_no_match:
  "\<forall>l \<in> set ls. \<not> snd (matchConfigLine l K) \<Longrightarrow> scan_config ls K = ('''', False)"
  by (induction ls) (auto split: prod.splits bool.splits)

lemma scan_config_first_match:
  "find (\<lambda>l. snd (matchConfigLine l K)) ls = Some line
   \<Longrightarrow> scan_config ls K = (fst (matchConfigLine line K), True)"
  by (induction ls) (auto split: prod.splits bool.splits if_splits)







lemma text_lines_Nil: "text_lines [] = []"
  by (subst text_lines.simps) simp

lemma text_lines_Cons:
  "text_lines (c # cs) =
     dropCR (takeWhile (\<lambda>c. c \<noteq> CHR 0x0A) (c # cs))
       # text_lines (drop (Suc (length (takeWhile (\<lambda>c. c \<noteq> CHR 0x0A) (c # cs)))) (c # cs))"
  by (subst text_lines.simps) simp

lemma set_ScanLines_text_lines: "set (ScanLines data) \<subseteq> set (text_lines data)"
  using ScanLines_prefix_text_lines by (rule set_mono_prefix)

text \<open>
  C10. When \<^verbatim>\<open>/proc/config.gz\<close> opens and its gzip header parses, the resolver opens
  no other file and reads none, and its result is the result of scanning the lines of
  the decompressed content, whatever \<^verbatim>\<open>/boot/config-<release>\<close> holds; when no line of
  that content matches the key, the result is the empty string and false. The release
  is read, or a file other than \<^verbatim>\<open>/proc/config.gz\<close> is opened, only when
  \<^verbatim>\<open>/proc/config.gz\<close> cannot be opened or its gzip header does not parse.
\<close>

theorem readKernelConfigOption_compressed_only:
  "(os_Open w ''/proc/config.gz'' = Inr f \<and> gzip_NewReader w f = Inr r \<longrightarrow>
      readKernelConfigOption w K = ([Open ''/proc/config.gz''], scan_config (Scanner_lines r) K)
      \<and> ((\<forall>l \<in> set (text_lines (fst r)). \<not> snd (matchConfigLine l K))
            \<longrightarrow> snd (readKernelConfigOption w K) = ('''', False)))
   \<and> ((ReadFile ''/proc/sys/kernel/osrelease'' \<in> set (fst (readKernelConfigOption w K))
         \<or> (\<exists>p. p \<noteq> ''/proc/config.gz'' \<and> Open p \<in> set (fst (readKernelConfigOption w K))))
        \<longrightarrow> (\<exists>e. os_Open w ''/proc/config.gz'' = Inl e)
            \<or> (\<exists>f e. os_Open w ''/proc/config.gz'' = Inr f \<and> gzip_NewReader w f = Inl e))"
proof (intro conjI impI)
  assume h: "os_Open w ''/proc/config.gz'' = Inr f \<and> gzip_NewReader w f = Inr r"
  then show eq: "readKernelConfigOption w K
                   = ([Open ''/proc/config.gz''], scan_config (Scanner_lines r) K)"
    by (simp add: readKernelConfigOption_def)
  assume "\<forall>l \<in> set (text_lines (fst r)). \<not> snd (matchConfigLine l K)"
  with set_ScanLines_text_lines [of "fst r"]
  have "\<forall>l \<in> set (Scanner_lines r). \<not> snd (matchConfigLine l K)"
    by (auto simp: Scanner_lines_def)
  then have "scan_config (Scanner_lines r) K = ('''', False)"
    by (rule scan_config_no_match)
  with eq show "snd (readKernelConfigOption w K) = ('''', False)" by simp
next
  assume h: "ReadFile ''/proc/sys/kernel/osrelease'' \<in> set (fst (readKernelConfigOption w K))
         \<or> (\<exists>p. p \<noteq> ''/proc/config.gz'' \<and> Open p \<in> set (fst (readKernelConfigOption w K)))"
  show "(\<exists>e. os_Open w ''/proc/config.gz'' = Inl e)
            \<or> (\<exists>f e. os_Open w ''/proc/config.gz'' = Inr f \<and> gzip_NewReader w f = Inl e)"
  proof (cases "os_Open w ''/proc/config.gz''")
    case (Inl e)
    then show ?thesis by simp
  next
    case (Inr f)
    show ?thesis
    proof (cases "gzip_NewReader w f")
      case (Inl e)
      with Inr show ?thesis by simp
    next
      case Inr2: (Inr r)
      with Inr have "fst (readKernelConfigOption w K) = [Open ''/proc/config.gz'']"
        by (simp add: readKernelConfigOption_def)
      with h show ?thesis by simp
    qed
  qed
qed

theorem readKernelConfigOption_compressed_only_witness:
  "os_Open container ''/proc/config.gz'' = Inr (gzip_magic, None)
   \<and> gzip_NewReader container (gzip_magic, None)
        = Inr (''CONFIG_SECCOMP=y\<newline># CONFIG_SECURITY_APPARMOR is not set\<newline>'', None)
   \<and> text_lines ''CONFIG_SECCOMP=y\<newline># CONFIG_SECURITY_APPARMOR is not set\<newline>''
        = [''CONFIG_SECCOMP=y'', ''# CONFIG_SECURITY_APPARMOR is not set'']
   \<and> snd (matchConfigLine ''CONFIG_SECCOMP=y'' ''CONFIG_AUDIT'') = False
   \<and> snd (matchConfigLine ''# CONFIG_SECURITY_APPARMOR is not set'' ''CONFIG_AUDIT'') = False
   \<and> os_Open container ''/boot/config-5.10.0-8-amd64''
        = Inr (''CONFIG_SECCOMP=m\<newline>CONFIG_SECURITY_APPARMOR=y\<newline>CONFIG_AUDIT=y\<newline>'', None)
   \<and> readKernelConfigOption container ''CONFIG_AUDIT'' = ([Open ''/proc/config.gz''], ('''', False))
   \<and> ReadFile ''/proc/sys/kernel/osrelease''
        \<in> set (fst (readKernelConfigOption bare ''CONFIG_AUDIT''))
   \<and> os_Open bare ''/proc/config.gz'' = Inl (Errno ''no such file or directory'')"
proof -
  note t = readKernelConfigOption_compressed_only
  let ?gz = "''CONFIG_SECCOMP=y\<newline># CONFIG_SECURITY_APPARMOR is not set\<newline>''"
  have a: "os_Open container ''/proc/config.gz'' = Inr (gzip_magic, None)"
    and a': "os_Open container ''/boot/config-5.10.0-8-amd64''
        = Inr (''CONFIG_SECCOMP=m\<newline>CONFIG_SECURITY_APPARMOR=y\<newline>CONFIG_AUDIT=y\<newline>'', None)"
    by (simp_all add: container_def from_table_def)
  have b: "gzip_NewReader container (gzip_magic, None) = Inr (?gz, None)"
    by (simp add: container_def HasPrefix_def)
  have c: "\<forall>l \<in> set (text_lines ?gz). \<not> snd (matchConfigLine l ''CONFIG_AUDIT'')"
    by (simp add: text_lines_Nil text_lines_Cons dropCR_def matchConfigLine_def HasPrefix_def)
  from c have c': "\<forall>l \<in> set (text_lines (fst (?gz, None :: error option))).
                     \<not> snd (matchConfigLine l ''CONFIG_AUDIT'')"
    by (simp only: fst_conv)
  note t1 = t [of container "(gzip_magic, None)" "(?gz, None)" "''CONFIG_AUDIT''",
               THEN conjunct1, THEN mp, OF conjI [OF a b]]
  note E = t1 [THEN conjunct1]
  note F = t1 [THEN conjunct2, THEN mp, OF c']
  have sc: "scan_config (Scanner_lines (?gz, None)) ''CONFIG_AUDIT'' = ('''', False)"
    using E F by simp
  from E have A: "readKernelConfigOption container ''CONFIG_AUDIT''
             = ([Open ''/proc/config.gz''], ('''', False))"
    by (simp only: sc)
  have d: "ReadFile ''/proc/sys/kernel/osrelease''
             \<in> set (fst (readKernelConfigOption bare ''CONFIG_AUDIT''))"
    by (simp add: readKernelConfigOption_def readBootConfig_def bare_def from_table_def)
  from t [of bare f r "''CONFIG_AUDIT''"] d
  have B: "(\<exists>e. os_Open bare ''/proc/config.gz'' = Inl e)
            \<or> (\<exists>f e. os_Open bare ''/proc/config.gz'' = Inr f \<and> gzip_NewReader bare f = Inl e)"
    by blast
  have e: "os_Open bare ''/proc/config.gz'' = Inl (Errno ''no such file or directory'')"
    by (simp add: bare_def from_table_def)
  have tl: "text_lines ?gz = [''CONFIG_SECCOMP=y'', ''# CONFIG_SECURITY_APPARMOR is not set'']"
    by (simp add: text_lines_Nil text_lines_Cons dropCR_def)
  have m: "snd (matchConfigLine ''CONFIG_SECCOMP=y'' ''CONFIG_AUDIT'') = False"
    "snd (matchConfigLine ''# CONFIG_SECURITY_APPARMOR is not set'' ''CONFIG_AUDIT'') = False"
    by (simp_all add: matchConfigLine_def HasPrefix_def)
  from A B a a' b d e tl m show ?thesis by blast
qed

section \<open>Properties of the AppArmor probe\<close>

lemma findings_readBootConfig: "findings (fst (readBootConfig w K)) = []"
  by (simp add: readBootConfig_def findings_def Let_def split: sum.splits)

lemma findings_readKernelConfigOption: "findings (fst (readKernelConfigOption w K)) = []"
  using findings_readBootConfig [of w K]
  by (auto simp: readKernelConfigOption_def findings_def split: sum.splits prod.splits)

lemma findings_apparmor_kernel_config:
  "findings (apparmor_kernel_config w) =
     [case snd (readKernelConfigOption w ''CONFIG_SECURITY_APPARMOR'') of
        (val, True) \<Rightarrow>
          Log_Printf ''AppArmor: kernel config CONFIG_SECURITY_APPARMOR=%s'' [Str val]
      | (val, False) \<Rightarrow> Log_Println ''AppArmor: kernel config not available'']"
  using findings_readKernelConfigOption [of w "''CONFIG_SECURITY_APPARMOR''"]
  by (auto simp: apparmor_kernel_config_def findings_append split: prod.splits)
     (simp_all add: findings_def)

lemma CheckAppArmor_findings_eq:
  "findings (CheckAppArmor w) =
     [case snd (readKernelConfigOption w ''CONFIG_SECURITY_APPARMOR'') of
        (val, True) \<Rightarrow>
          Log_Printf ''AppArmor: kernel config CONFIG_SECURITY_APPARMOR=%s'' [Str val]
      | (val, False) \<Rightarrow> Log_Println ''AppArmor: kernel config not available'']
     @ (case ioutil_ReadFile w ''/proc/cmdline'' of
          Inr params \<Rightarrow>
            [if Contains params ''apparmor=1'' \<or> Contains params ''security=apparmor''
             then Log_Printf ''AppArmor: enabled via boot parameters (%s)''
                    [Str (TrimSpace params)]
             else if Contains params ''apparmor=0''
               then Log_Println ''AppArmor: disabled via boot parameter apparmor=0''
             else Log_Println ''AppArmor: no explicit AppArmor boot parameter found'']
        | Inl e \<Rightarrow> [])
     @ [case ioutil_ReadFile w ''/sys/module/apparmor/parameters/enabled'' of
          Inr data \<Rightarrow>
            if TrimSpace data = ''Y'' then Log_Println ''AppArmor: module is enabled (runtime)''
            else Log_Println ''AppArmor: module is loaded but disabled (runtime)''
        | Inl e \<Rightarrow> Log_Println ''AppArmor: module not loaded'']
     @ [case ioutil_ReadFile w ''/proc/self/attr/current'' of
          Inr label \<Rightarrow>
            if TrimRight label [CHR 0x00, CHR 0x0A] = ''''
               \<or> TrimRight label [CHR 0x00, CHR 0x0A] = ''unconfined''
            then Log_Println ''AppArmor: container is unconfined (no profile attached)''
            else Log_Printf ''AppArmor: container profile: %s''
                   [Str (TrimRight label [CHR 0x00, CHR 0x0A])]
        | Inl e \<Rightarrow> Log_Println ''AppArmor: unable to read container profile'']"
proof -
  have b: "findings (apparmor_boot_parameters w) =
     (case ioutil_ReadFile w ''/proc/cmdline'' of
          Inr params \<Rightarrow>
            [if Contains params ''apparmor=1'' \<or> Contains params ''security=apparmor''
             then Log_Printf ''AppArmor: enabled via boot parameters (%s)''
                    [Str (TrimSpace params)]
             else if Contains params ''apparmor=0''
               then Log_Println ''AppArmor: disabled via boot parameter apparmor=0''
             else Log_Println ''AppArmor: no explicit AppArmor boot parameter found'']
        | Inl e \<Rightarrow> [])"
    by (simp add: apparmor_boot_parameters_def findings_def split: sum.splits)
  have c: "findings (apparmor_runtime_status w) =
     [case ioutil_ReadFile w ''/sys/module/apparmor/parameters/enabled'' of
          Inr data \<Rightarrow>
            if TrimSpace data = ''Y'' then Log_Println ''AppArmor: module is enabled (runtime)''
            else Log_Println ''AppArmor: module is loaded but disabled (runtime)''
        | Inl e \<Rightarrow> Log_Println ''AppArmor: module not loaded'']"
    by (simp add: apparmor_runtime_status_def findings_def split: sum.splits)
  have d: "findings (apparmor_profile w) =
     [case ioutil_ReadFile w ''/proc/self/attr/current'' of
          Inr label \<Rightarrow>
            if TrimRight label [CHR 0x00, CHR 0x0A] = ''''
               \<or> TrimRight label [CHR 0x00, CHR 0x0A] = ''unconfined''
            then Log_Println ''AppArmor: container is unconfined (no profile attached)''
            else Log_Printf ''AppArmor: container profile: %s''
                   [Str (TrimRight label [CHR 0x00, CHR 0x0A])]
        | Inl e \<Rightarrow> Log_Println ''AppArmor: unable to read container profile'']"
    by (simp add: apparmor_profile_def findings_def Let_def split: sum.splits)
  have eq: "findings (CheckAppArmor w) =
      findings (apparmor_kernel_config w) @ findings (apparmor_boot_parameters w)
      @ findings (apparmor_runtime_status w) @ findings (apparmor_profile w)"
    by (simp add: CheckAppArmor_def findings_append)
  show ?thesis
    unfolding eq findings_apparmor_kernel_config b c d
    by simp
qed


text \<open>
  C1, as the code has it. The probe emits, in this order: one finding on the kernel
  config, which depends on the resolver's result only; one finding on the boot
  parameters when \<^verbatim>\<open>/proc/cmdline\<close> can be read, which depends on its content only, and
  none when it cannot be read; one finding on the module's \<open>enabled\<close> parameter, and one
  on \<^verbatim>\<open>/proc/self/attr/current\<close>, each of which depends on the result of reading that
  file only. So there are four findings when \<^verbatim>\<open>/proc/cmdline\<close> can be read and three
  when it cannot, and no source changes the finding of another.
\<close>

theorem CheckAppArmor_findings:
  "findings (CheckAppArmor w) =
     [case snd (readKernelConfigOption w ''CONFIG_SECURITY_APPARMOR'') of
        (val, True) \<Rightarrow>
          Log_Printf ''AppArmor: kernel config CONFIG_SECURITY_APPARMOR=%s'' [Str val]
      | (val, False) \<Rightarrow> Log_Println ''AppArmor: kernel config not available'']
     @ (case ioutil_ReadFile w ''/proc/cmdline'' of
          Inr params \<Rightarrow>
            [if Contains params ''apparmor=1'' \<or> Contains params ''security=apparmor''
             then Log_Printf ''AppArmor: enabled via boot parameters (%s)''
                    [Str (TrimSpace params)]
             else if Contains params ''apparmor=0''
               then Log_Println ''AppArmor: disabled via boot parameter apparmor=0''
             else Log_Println ''AppArmor: no explicit AppArmor boot parameter found'']
        | Inl e \<Rightarrow> [])
     @ [case ioutil_ReadFile w ''/sys/module/apparmor/parameters/enabled'' of
          Inr data \<Rightarrow>
            if TrimSpace data = ''Y'' then Log_Println ''AppArmor: module is enabled (runtime)''
            else Log_Println ''AppArmor: module is loaded but disabled (runtime)''
        | Inl e \<Rightarrow> Log_Println ''AppArmor: module not loaded'']
     @ [case ioutil_ReadFile w ''/proc/self/attr/current'' of
          Inr label \<Rightarrow>
            if TrimRight label [CHR 0x00, CHR 0x0A] = ''''
               \<or> TrimRight label [CHR 0x00, CHR 0x0A] = ''unconfined''
            then Log_Println ''AppArmor: container is unconfined (no profile attached)''
            else Log_Printf ''AppArmor: container profile: %s''
                   [Str (TrimRight label [CHR 0x00, CHR 0x0A])]
        | Inl e \<Rightarrow> Log_Println ''AppArmor: unable to read container profile'']
   \<and> length (findings (CheckAppArmor w))
       = (case ioutil_ReadFile w ''/proc/cmdline'' of Inr params \<Rightarrow> 4 | Inl e \<Rightarrow> 3)"
  using CheckAppArmor_findings_eq [of w] by (simp split: sum.splits)

lemma container_files:
  "ioutil_ReadFile container ''/proc/cmdline'' = Inr ''BOOT_IMAGE=/vmlinuz ro quiet apparmor=1\<newline>''"
  "ioutil_ReadFile container ''/sys/module/apparmor/parameters/enabled'' = Inr ''Y\<newline>''"
  "ioutil_ReadFile container ''/proc/self/attr/current'' = Inr (''docker_t'' @ [CHR 0x00, CHR 0x0A])"
  "ioutil_ReadFile container ''/proc/self/status''
     = Inr (''Name:'' @ [CHR 0x09] @ ''cdk\<newline>Seccomp:'' @ [CHR 0x09] @ ''2\<newline>'')"
  by (simp_all add: container_def from_table_def)

lemma with_file_reads:
  "ioutil_ReadFile (with_file w p r) q = (if q = p then r else ioutil_ReadFile w q)"
  "os_Open (with_file w p r) = os_Open w"
  "gzip_NewReader (with_file w p r) = gzip_NewReader w"
  by (simp_all add: with_file_def)

lemma readBootConfig_with_file:
  "p \<noteq> ''/proc/sys/kernel/osrelease''
   \<Longrightarrow> readBootConfig (with_file w p r) K = readBootConfig w K"
  by (simp add: readBootConfig_def with_file_reads Let_def cong: sum.case_cong)

lemma readKernelConfigOption_with_file:
  "p \<noteq> ''/proc/sys/kernel/osrelease''
   \<Longrightarrow> readKernelConfigOption (with_file w p r) K = readKernelConfigOption w K"
  by (simp add: readKernelConfigOption_def readBootConfig_with_file with_file_reads
        cong: sum.case_cong)

lemma container_config:
  "readKernelConfigOption container ''CONFIG_SECURITY_APPARMOR''
     = ([Open ''/proc/config.gz''], (''n'', True))"
  "readKernelConfigOption container ''CONFIG_SECCOMP''
     = ([Open ''/proc/config.gz''], (''y'', True))"
  by (simp_all add: readKernelConfigOption_def container_def from_table_def gzip_magic_def
        HasPrefix_def scan_eval matchConfigLine_def TrimPrefix_def)

lemma trimmed_Y: "TrimSpace ''Y\<newline>'' = ''Y''"
  by code_simp

lemma trimmed_cmdline:
  "TrimSpace ''BOOT_IMAGE=/vmlinuz ro quiet apparmor=1\<newline>''
     = ''BOOT_IMAGE=/vmlinuz ro quiet apparmor=1''"
  by code_simp

lemma cmdline_apparmor:
  "Contains ''BOOT_IMAGE=/vmlinuz ro quiet apparmor=1\<newline>'' ''apparmor=1''"
  by code_simp

lemmas trimmed_values = trimmed_Y trimmed_cmdline cmdline_apparmor

text \<open>
  C1 as stated fails where \<^verbatim>\<open>/proc/cmdline\<close> cannot be read and the other three sources
  can: the probe emits three findings, none of them on the boot parameters.
\<close>

theorem CheckAppArmor_cmdline_unreadable:
  "ioutil_ReadFile (with_file container ''/proc/cmdline'' permission_denied) ''/proc/cmdline''
     = Inl (Errno ''permission denied'')
   \<and> findings (CheckAppArmor (with_file container ''/proc/cmdline'' permission_denied))
       = [Log_Printf ''AppArmor: kernel config CONFIG_SECURITY_APPARMOR=%s'' [Str ''n''],
          Log_Println ''AppArmor: module is enabled (runtime)'',
          Log_Printf ''AppArmor: container profile: %s'' [Str ''docker_t'']]
   \<and> length (findings (CheckAppArmor (with_file container ''/proc/cmdline'' permission_denied)))
       = 3"
proof -
  let ?w = "with_file container ''/proc/cmdline'' permission_denied"
  have r: "ioutil_ReadFile ?w ''/proc/cmdline'' = Inl (Errno ''permission denied'')"
    by (simp add: with_file_reads permission_denied_def)
  have f: "findings (CheckAppArmor ?w)
       = [Log_Printf ''AppArmor: kernel config CONFIG_SECURITY_APPARMOR=%s'' [Str ''n''],
          Log_Println ''AppArmor: module is enabled (runtime)'',
          Log_Printf ''AppArmor: container profile: %s'' [Str ''docker_t'']]"
    unfolding CheckAppArmor_findings_eq
    by (simp add: readKernelConfigOption_with_file container_config with_file_reads
          permission_denied_def container_files trimmed_values TrimRight_def)
  from r f show ?thesis by simp
qed

theorem CheckAppArmor_findings_witness:
  "findings (CheckAppArmor container)
     = [Log_Printf ''AppArmor: kernel config CONFIG_SECURITY_APPARMOR=%s'' [Str ''n''],
        Log_Printf ''AppArmor: enabled via boot parameters (%s)''
          [Str ''BOOT_IMAGE=/vmlinuz ro quiet apparmor=1''],
        Log_Println ''AppArmor: module is enabled (runtime)'',
        Log_Printf ''AppArmor: container profile: %s'' [Str ''docker_t'']]
   \<and> length (findings (CheckAppArmor container)) = 4
   \<and> length (findings (CheckAppArmor bare)) = 3"
proof -
  note t = CheckAppArmor_findings
  have "ioutil_ReadFile bare ''/proc/cmdline'' = Inl (Errno ''no such file or directory'')"
    by (simp add: bare_def from_table_def)
  with t [of bare] have B: "length (findings (CheckAppArmor bare)) = 3" by simp
  from t [of container]
  have A: "findings (CheckAppArmor container)
     = [Log_Printf ''AppArmor: kernel config CONFIG_SECURITY_APPARMOR=%s'' [Str ''n''],
        Log_Printf ''AppArmor: enabled via boot parameters (%s)''
          [Str ''BOOT_IMAGE=/vmlinuz ro quiet apparmor=1''],
        Log_Println ''AppArmor: module is enabled (runtime)'',
        Log_Printf ''AppArmor: container profile: %s'' [Str ''docker_t'']]"
    by (simp add: container_config container_files trimmed_values TrimRight_def
          del: Contains.simps)
  from A B show ?thesis by simp
qed

section \<open>Properties of the Seccomp kernel-support probe\<close>

text \<open>
  C4, as the code has it. When \<^verbatim>\<open>/proc/self/status\<close> can be read, the probe emits the
  finding of the status file, which depends on its content only, and then, exactly when
  the resolver finds \<open>CONFIG_SECCOMP\<close>, the finding of the kernel config with the value;
  neither changes the other. When the status file cannot be read, the probe logs that
  and returns: it does not consult the kernel config and emits no finding for it.
\<close>

theorem CheckSeccompKernelSupport_signals:
  "(\<forall>data. ioutil_ReadFile w ''/proc/self/status'' = Inr data \<longrightarrow>
      findings (CheckSeccompKernelSupport w)
        = [if Contains data ''Seccomp:''
           then Log_Println ''Seccomp: kernel supports Seccomp''
           else Log_Println ''Seccomp: kernel does NOT support Seccomp'']
          @ (case snd (readKernelConfigOption w ''CONFIG_SECCOMP'') of
               (val, True) \<Rightarrow> [Log_Printf ''Seccomp: kernel config CONFIG_SECCOMP=%s'' [Str val]]
             | (val, False) \<Rightarrow> []))
   \<and> (\<forall>e. ioutil_ReadFile w ''/proc/self/status'' = Inl e \<longrightarrow>
        CheckSeccompKernelSupport w
          = [ReadFile ''/proc/self/status'',
             Log_Printf ''seccomp: unable to read /proc/self/status: %v'' [Err e]])"
proof (intro conjI allI impI)
  fix data
  assume "ioutil_ReadFile w ''/proc/self/status'' = Inr data"
  then show "findings (CheckSeccompKernelSupport w)
        = [if Contains data ''Seccomp:''
           then Log_Println ''Seccomp: kernel supports Seccomp''
           else Log_Println ''Seccomp: kernel does NOT support Seccomp'']
          @ (case snd (readKernelConfigOption w ''CONFIG_SECCOMP'') of
               (val, True) \<Rightarrow> [Log_Printf ''Seccomp: kernel config CONFIG_SECCOMP=%s'' [Str val]]
             | (val, False) \<Rightarrow> [])"
    using findings_readKernelConfigOption [of w "''CONFIG_SECCOMP''"]
    by (auto simp: CheckSeccompKernelSupport_def findings_append split: prod.splits)
       (simp_all add: findings_def)
next
  fix e
  assume "ioutil_ReadFile w ''/proc/self/status'' = Inl e"
  then show "CheckSeccompKernelSupport w
          = [ReadFile ''/proc/self/status'',
             Log_Printf ''seccomp: unable to read /proc/self/status: %v'' [Err e]]"
    by (simp add: CheckSeccompKernelSupport_def)
qed

text \<open>
  C4 as stated fails where the status file cannot be read and the kernel config holds
  \<open>CONFIG_SECCOMP=y\<close>: the only finding is the read failure.
\<close>

theorem CheckSeccompKernelSupport_status_unreadable:
  "snd (readKernelConfigOption (with_file container ''/proc/self/status'' permission_denied)
          ''CONFIG_SECCOMP'') = (''y'', True)
   \<and> CheckSeccompKernelSupport (with_file container ''/proc/self/status'' permission_denied)
       = [ReadFile ''/proc/self/status'',
          Log_Printf ''seccomp: unable to read /proc/self/status: %v''
            [Err (Errno ''permission denied'')]]
   \<and> Log_Printf ''Seccomp: kernel config CONFIG_SECCOMP=%s'' [Str ''y'']
       \<notin> set (CheckSeccompKernelSupport
                 (with_file container ''/proc/self/status'' permission_denied))"
proof -
  let ?w = "with_file container ''/proc/self/status'' permission_denied"
  have a: "snd (readKernelConfigOption ?w ''CONFIG_SECCOMP'') = (''y'', True)"
    by (simp add: readKernelConfigOption_with_file container_config)
  have b: "CheckSeccompKernelSupport ?w
       = [ReadFile ''/proc/self/status'',
          Log_Printf ''seccomp: unable to read /proc/self/status: %v''
            [Err (Errno ''permission denied'')]]"
    by (simp add: CheckSeccompKernelSupport_def with_file_reads permission_denied_def)
  from a b show ?thesis by simp
qed

lemma status_has_seccomp:
  "Contains (''Name:'' @ [CHR 0x09] @ ''cdk\<newline>Seccomp:'' @ [CHR 0x09] @ ''2\<newline>'') ''Seccomp:''"
  by code_simp

theorem CheckSeccompKernelSupport_signals_witness:
  "ioutil_ReadFile container ''/proc/self/status''
     = Inr (''Name:'' @ [CHR 0x09] @ ''cdk\<newline>Seccomp:'' @ [CHR 0x09] @ ''2\<newline>'')
   \<and> findings (CheckSeccompKernelSupport container)
       = [Log_Println ''Seccomp: kernel supports Seccomp'',
          Log_Printf ''Seccomp: kernel config CONFIG_SECCOMP=%s'' [Str ''y'']]
   \<and> ioutil_ReadFile bare ''/proc/self/status'' = Inl (Errno ''no such file or directory'')
   \<and> CheckSeccompKernelSupport bare
       = [ReadFile ''/proc/self/status'',
          Log_Printf ''seccomp: unable to read /proc/self/status: %v''
            [Err (Errno ''no such file or directory'')]]"
proof -
  note t = CheckSeccompKernelSupport_signals
  have r: "ioutil_ReadFile bare ''/proc/self/status'' = Inl (Errno ''no such file or directory'')"
    by (simp add: bare_def from_table_def)
  note A = t [of container, THEN conjunct1, THEN spec, THEN mp, OF container_files(4)]
  note B = t [of bare, THEN conjunct2, THEN spec, THEN mp, OF r]
  from A have A': "findings (CheckSeccompKernelSupport container)
       = [Log_Println ''Seccomp: kernel supports Seccomp'',
          Log_Printf ''Seccomp: kernel config CONFIG_SECCOMP=%s'' [Str ''y'']]"
    by (simp only: status_has_seccomp container_config) simp
  from A' B r container_files(4) show ?thesis by blast
qed

section \<open>Lines that the scanner cannot buffer\<close>

lemma length_dropCR: "length l \<le> Suc (length (dropCR l))"
  by (simp add: dropCR_def)

lemma ScanLines_short:
  "\<forall>l \<in> set (text_lines data). Suc (length l) < MaxScanTokenSize
   \<Longrightarrow> ScanLines data = text_lines data"
proof (induction data rule: ScanLines.induct)
  case (1 data)
  let ?l = "takeWhile (\<lambda>c. c \<noteq> CHR 0x0A) data"
  show ?case
  proof (cases "data = []")
    case True
    then show ?thesis by (simp add: ScanLines_Nil text_lines_Nil)
  next
    case False
    then have tl: "text_lines data = dropCR ?l # text_lines (drop (Suc (length ?l)) data)"
      by (subst text_lines.simps) simp
    with "1.prems" have "Suc (length (dropCR ?l)) < MaxScanTokenSize"
      and rest: "\<forall>l \<in> set (text_lines (drop (Suc (length ?l)) data)).
                   Suc (length l) < MaxScanTokenSize"
      by simp_all
    with length_dropCR [of ?l] have short: "\<not> MaxScanTokenSize \<le> length ?l" by simp
    with False have "ScanLines data = dropCR ?l # ScanLines (drop (Suc (length ?l)) data)"
      by (subst ScanLines.simps) simp
    moreover from False short rest
    have "ScanLines (drop (Suc (length ?l)) data) = text_lines (drop (Suc (length ?l)) data)"
      by (intro "1.IH") simp_all
    ultimately show ?thesis using tl by simp
  qed
qed

lemma seccomp_status_loop_absent:
  "find (\<lambda>l. HasPrefix l ''Seccomp:'') ls = None
   \<Longrightarrow> seccomp_status_loop ls
       = Inr [Log_Println
           ''Seccomp: field not found in /proc/self/status (kernel may not support Seccomp)'']"
  by (induction ls) (auto split: if_splits)

lemma seccomp_status_loop_classifies:
  "find (\<lambda>l. HasPrefix l ''Seccomp:'') ls = Some line \<Longrightarrow> 2 \<le> length (Fields line)
   \<Longrightarrow> seccomp_status_loop ls
       = Inr [if Fields line ! 1 = ''0'' then Log_Println ''Seccomp: disabled''
              else if Fields line ! 1 = ''1'' then Log_Println ''Seccomp: strict mode (1)''
              else if Fields line ! 1 = ''2'' then Log_Println ''Seccomp: filter mode (2)''
              else Log_Printf ''Seccomp: unknown value %s'' [Str (Fields line ! 1)]]"
  by (induction ls) (auto simp: Let_def index_def split: if_splits)

text \<open>
  What the mode probe does on a status file whose lines all fit the scanner's buffer:
  the classification that C5 describes.
\<close>

lemma CheckSeccompStatus_short_lines:
  assumes "ioutil_ReadFile w ''/proc/self/status'' = Inr data"
    and "\<forall>l \<in> set (text_lines data). Suc (length l) < MaxScanTokenSize"
  shows "find (\<lambda>l. HasPrefix l ''Seccomp:'') (text_lines data) = Some line
         \<Longrightarrow> 2 \<le> length (Fields line)
         \<Longrightarrow> CheckSeccompStatus w
             = Inr [ReadFile ''/proc/self/status'',
                    if Fields line ! 1 = ''0'' then Log_Println ''Seccomp: disabled''
                    else if Fields line ! 1 = ''1'' then Log_Println ''Seccomp: strict mode (1)''
                    else if Fields line ! 1 = ''2'' then Log_Println ''Seccomp: filter mode (2)''
                    else Log_Printf ''Seccomp: unknown value %s'' [Str (Fields line ! 1)]]"
    and "find (\<lambda>l. HasPrefix l ''Seccomp:'') (text_lines data) = None
         \<Longrightarrow> CheckSeccompStatus w
             = Inr [ReadFile ''/proc/self/status'',
                    Log_Println
           ''Seccomp: field not found in /proc/self/status (kernel may not support Seccomp)'']"
  using assms
  by (simp_all add: CheckSeccompStatus_def Scanner_lines_def ScanLines_short
        seccomp_status_loop_classifies seccomp_status_loop_absent)

lemma no_newline_in_groups: "CHR 0x0A \<notin> set (concat (replicate n ''1000 ''))"
  by (induction n) simp_all

lemma length_groups: "length (concat (replicate n ''1000 '')) = 5 * n"
  by (induction n) simp_all

lemma Contains_later_line: "Contains s sub \<Longrightarrow> Contains (p @ c # s) sub"
  by (induction p) simp_all

text \<open>
  C5 on a status file with a \<open>Groups:\<close> line of more than 64 KiB before the \<open>Seccomp:\<close>
  line. The file has a line \<open>Seccomp: 2\<close>, yet the probe reports that the field was not
  found: the scanner stops at the long line. On the same file the kernel-support probe,
  which searches the whole content, reports that the kernel supports Seccomp.
\<close>

theorem CheckSeccompStatus_many_groups:
  "find (\<lambda>l. HasPrefix l ''Seccomp:'') (text_lines status_many_groups)
     = Some (''Seccomp:'' @ [CHR 0x09] @ ''2'')
   \<and> Fields (''Seccomp:'' @ [CHR 0x09] @ ''2'') = [''Seccomp:'', ''2'']
   \<and> CheckSeccompStatus (with_file container ''/proc/self/status'' (Inr status_many_groups))
       = Inr [ReadFile ''/proc/self/status'',
              Log_Println
           ''Seccomp: field not found in /proc/self/status (kernel may not support Seccomp)'']
   \<and> hd (findings (CheckSeccompKernelSupport
                      (with_file container ''/proc/self/status'' (Inr status_many_groups))))
       = Log_Println ''Seccomp: kernel supports Seccomp''"
proof -
  let ?w = "with_file container ''/proc/self/status'' (Inr status_many_groups)"
  let ?l1 = "''Name:'' @ [CHR 0x09] @ ''cdk''"
  let ?l2 = "''Groups:'' @ [CHR 0x09] @ concat (replicate 16384 ''1000 '') @ ''1001 ''"
  let ?l3 = "''Seccomp:'' @ [CHR 0x09] @ ''2''"
  have n1: "CHR 0x0A \<notin> set ?l1" and n3: "CHR 0x0A \<notin> set ?l3" by simp_all
  have n2: "CHR 0x0A \<notin> set ?l2" using no_newline_in_groups [of 16384] by simp
  have len2: "MaxScanTokenSize \<le> length ?l2"
    by (simp add: MaxScanTokenSize_def length_groups)
  have len1: "length ?l1 < MaxScanTokenSize" by (simp add: MaxScanTokenSize_def)
  have last2: "dropCR ?l2 = ?l2" by (simp add: dropCR_def)
  have tl: "text_lines status_many_groups = [?l1, ?l2, ?l3]"
    unfolding status_many_groups_def
    by (simp only: text_lines_line [OF n1] text_lines_line [OF n2] text_lines_line [OF n3]
          text_lines_Nil last2) (simp add: dropCR_def)
  have p2: "\<not> HasPrefix ?l2 ''Seccomp:''" by (simp add: HasPrefix_def)
  have a: "find (\<lambda>l. HasPrefix l ''Seccomp:'') (text_lines status_many_groups) = Some ?l3"
    unfolding tl using p2 by (simp add: HasPrefix_def)
  have f: "Fields ?l3 = [''Seccomp:'', ''2'']" by code_simp
  have sl: "ScanLines status_many_groups = [?l1]"
    unfolding status_many_groups_def
    by (simp only: ScanLines_line [OF n1 len1] ScanLines_too_long [OF n2 len2])
       (simp add: MaxScanTokenSize_def dropCR_def)
  have b: "CheckSeccompStatus ?w
       = Inr [ReadFile ''/proc/self/status'',
              Log_Println
           ''Seccomp: field not found in /proc/self/status (kernel may not support Seccomp)'']"
    by (simp add: CheckSeccompStatus_def with_file_reads Scanner_lines_def sl HasPrefix_def)
  have "Contains (?l3 @ [CHR 0x0A]) ''Seccomp:''" by (simp add: HasPrefix_def)
  then have "Contains (?l2 @ CHR 0x0A # ?l3 @ [CHR 0x0A]) ''Seccomp:''"
    by (rule Contains_later_line)
  then have "Contains (?l1 @ CHR 0x0A # ?l2 @ CHR 0x0A # ?l3 @ [CHR 0x0A]) ''Seccomp:''"
    by (rule Contains_later_line)
  then have c: "Contains status_many_groups ''Seccomp:''"
    by (simp only: status_many_groups_def)
  have d: "hd (findings (CheckSeccompKernelSupport ?w))
       = Log_Println ''Seccomp: kernel supports Seccomp''"
    using c by (simp add: CheckSeccompKernelSupport_def with_file_reads findings_def)
  from a f b d show ?thesis by simp
qed

text \<open>
  What the resolver does on a compressed config whose lines all fit the scanner's
  buffer: the value of the first line that matches, whatever the fallback holds.
\<close>

lemma readKernelConfigOption_short_lines:
  assumes "os_Open w ''/proc/config.gz'' = Inr f" and "gzip_NewReader w f = Inr r"
    and "\<forall>l \<in> set (text_lines (fst r)). Suc (length l) < MaxScanTokenSize"
    and "find (\<lambda>l. snd (matchConfigLine l K)) (text_lines (fst r)) = Some line"
  shows "readKernelConfigOption w K
           = ([Open ''/proc/config.gz''], (fst (matchConfigLine line K), True))"
  using assms
  by (simp add: readKernelConfigOption_def Scanner_lines_def ScanLines_short
        scan_config_first_match)

text \<open>
  C3 on a compressed config with a line of more than 64 KiB before the line of the key.
  The content has the line \<open>CONFIG_SECCOMP=y\<close>, yet the resolver returns the empty string
  and false: the scanner stops at the long line.
\<close>

theorem readKernelConfigOption_long_line:
  "os_Open container_long_config ''/proc/config.gz'' = Inr (gzip_magic, None)
   \<and> gzip_NewReader container_long_config (gzip_magic, None) = Inr (config_long_line, None)
   \<and> ''CONFIG_SECCOMP=y'' \<in> set (text_lines config_long_line)
   \<and> matchConfigLine ''CONFIG_SECCOMP=y'' ''CONFIG_SECCOMP'' = (''y'', True)
   \<and> readKernelConfigOption container_long_config ''CONFIG_SECCOMP''
       = ([Open ''/proc/config.gz''], ('''', False))"
proof -
  let ?l = "''CONFIG_CMDLINE=\"'' @ replicate 65536 (CHR ''a'') @ ''\"''"
  have n: "CHR 0x0A \<notin> set ?l" and n2: "CHR 0x0A \<notin> set ''CONFIG_SECCOMP=y''" by simp_all
  have len: "MaxScanTokenSize \<le> length ?l" by (simp add: MaxScanTokenSize_def)
  have a: "os_Open container_long_config ''/proc/config.gz'' = Inr (gzip_magic, None)"
    and b: "gzip_NewReader container_long_config (gzip_magic, None) = Inr (config_long_line, None)"
    by (simp_all add: container_long_config_def container_def from_table_def)
  have "text_lines config_long_line = [dropCR ?l, dropCR ''CONFIG_SECCOMP=y'']"
    unfolding config_long_line_def
    by (simp only: text_lines_line [OF n] text_lines_line [OF n2] text_lines_Nil)
  then have c: "''CONFIG_SECCOMP=y'' \<in> set (text_lines config_long_line)"
    by (simp add: dropCR_def)
  have d: "matchConfigLine ''CONFIG_SECCOMP=y'' ''CONFIG_SECCOMP'' = (''y'', True)"
    by (simp add: matchConfigLine_def HasPrefix_def TrimPrefix_def)
  have sl: "ScanLines config_long_line = []"
    unfolding config_long_line_def by (rule ScanLines_too_long [OF n len])
  have e: "readKernelConfigOption container_long_config ''CONFIG_SECCOMP''
       = ([Open ''/proc/config.gz''], ('''', False))"
    by (simp add: readKernelConfigOption_def a b Scanner_lines_def sl)
  from a b c d e show ?thesis by simp
qed

text \<open>
  What the mode probe does with a \<open>Seccomp:\<close> line of fewer than two fields in a status
  file whose lines all fit the scanner's buffer: the malformed-line finding that C6
  describes.
\<close>

lemma CheckSeccompStatus_malformed_short_lines:
  assumes "ioutil_ReadFile w ''/proc/self/status'' = Inr data"
    and "\<forall>l \<in> set (text_lines data). Suc (length l) < MaxScanTokenSize"
    and "find (\<lambda>l. HasPrefix l ''Seccomp:'') (text_lines data) = Some line"
    and "length (Fields line) < 2"
  shows "CheckSeccompStatus w
           = Inr [ReadFile ''/proc/self/status'',
                  Log_Println ''seccomp: malformed Seccomp line'']"
  using assms
  by (simp add: CheckSeccompStatus_def Scanner_lines_def ScanLines_short
        seccomp_status_loop_malformed)

text \<open>
  C6 on a status file with a \<open>Groups:\<close> line of more than 64 KiB before a \<open>Seccomp:\<close> line
  that has no value. The first line with the prefix splits into one field, yet the
  probe does not report a malformed line: the scanner stops at the long line and the
  probe reports that the field was not found. (The probe does not index out of range,
  there or anywhere: lemma \<open>seccomp_status_loop_no_panic\<close>.)
\<close>

theorem CheckSeccompStatus_long_malformed:
  "find (\<lambda>l. HasPrefix l ''Seccomp:'') (text_lines status_long_malformed) = Some ''Seccomp:''
   \<and> Fields ''Seccomp:'' = [''Seccomp:'']
   \<and> CheckSeccompStatus (with_file container ''/proc/self/status'' (Inr status_long_malformed))
       = Inr [ReadFile ''/proc/self/status'',
              Log_Println
           ''Seccomp: field not found in /proc/self/status (kernel may not support Seccomp)'']"
proof -
  let ?w = "with_file container ''/proc/self/status'' (Inr status_long_malformed)"
  let ?l1 = "''Name:'' @ [CHR 0x09] @ ''cdk''"
  let ?l2 = "''Groups:'' @ [CHR 0x09] @ concat (replicate 16384 ''1000 '') @ ''1001 ''"
  have n1: "CHR 0x0A \<notin> set ?l1" and n3: "CHR 0x0A \<notin> set ''Seccomp:''" by simp_all
  have n2: "CHR 0x0A \<notin> set ?l2" using no_newline_in_groups [of 16384] by simp
  have len1: "length ?l1 < MaxScanTokenSize" by (simp add: MaxScanTokenSize_def)
  have len2: "MaxScanTokenSize \<le> length ?l2"
    by (simp add: MaxScanTokenSize_def length_groups)
  have last2: "dropCR ?l2 = ?l2" by (simp add: dropCR_def)
  have tl: "text_lines status_long_malformed = [?l1, ?l2, ''Seccomp:'']"
    unfolding status_long_malformed_def
    by (simp only: text_lines_line [OF n1] text_lines_line [OF n2] text_lines_line [OF n3]
          text_lines_Nil last2) (simp add: dropCR_def)
  have p2: "\<not> HasPrefix ?l2 ''Seccomp:''" by (simp add: HasPrefix_def)
  have a: "find (\<lambda>l. HasPrefix l ''Seccomp:'') (text_lines status_long_malformed)
             = Some ''Seccomp:''"
    unfolding tl using p2 by (simp add: HasPrefix_def)
  have f: "Fields ''Seccomp:'' = [''Seccomp:'']" by code_simp
  have sl: "ScanLines status_long_malformed = [?l1]"
    unfolding status_long_malformed_def
    by (simp only: ScanLines_line [OF n1 len1] ScanLines_too_long [OF n2 len2])
       (simp add: MaxScanTokenSize_def dropCR_def)
  have b: "CheckSeccompStatus ?w
       = Inr [ReadFile ''/proc/self/status'',
              Log_Println
           ''Seccomp: field not found in /proc/self/status (kernel may not support Seccomp)'']"
    by (simp add: CheckSeccompStatus_def with_file_reads Scanner_lines_def sl HasPrefix_def)
  from a f b show ?thesis by simp
qed

end
